theory Spec2Isabelle
  imports Main "HOL-Library.Word"
begin

section \<open>Buffers, errors and the frame header\<close>

text \<open>
  A Node \<^verbatim>\<open>Buffer\<close> is a list of bytes. JavaScript strings are kept as their UTF-8
  bytes (\<^typ>\<open>string\<close>), which is what \<^verbatim>\<open>Buffer.from(json)\<close> and the response writer
  produce from them; string concatenation is list append.
\<close>

type_synonym byte = "8 word"
type_synonym buffer = "byte list"

text \<open>
  Every \<^verbatim>\<open>throw\<close> and every rejected promise of \<^verbatim>\<open>chat.ts\<close> is a value of this type.
  The \<^verbatim>\<open>API_...\<close> constructors are the entries of \<^verbatim>\<open>EX\<close> the controller names;
  \<open>StreamResponseInvalid\<close> is \<^verbatim>\<open>new Error(`Stream response invalid: ...`)\<close>;
  \<open>NetworkError\<close> is a rejection of the HTTP client; \<open>TypeError\<close>, \<open>RangeError\<close> and
  \<open>ERR_STREAM_WRITE_AFTER_END\<close> are the runtime's own.
\<close>

datatype api_error =
    StreamResponseInvalid
  | API_REQUEST_FAILED string
  | API_FILE_URL_INVALID
  | API_FILE_EXECEEDS_SIZE
  | API_FILE_UPLOAD_FAILED
  | API_FILE_UPLOAD_TIMEOUT
  | NetworkError
  | TypeError
  | RangeError
  | ERR_STREAM_WRITE_AFTER_END

text \<open>
  \<^verbatim>\<open>buf.readUint32BE(off)\<close>: the four bytes from \<open>off\<close>, most significant first;
  a \<^verbatim>\<open>RangeError\<close> (here \<open>None\<close>) when they are not all inside the buffer.
\<close>

definition readUint32BE :: "buffer \<Rightarrow> nat \<Rightarrow> nat option" where
  "readUint32BE b off =
     (if off + 4 \<le> length b
      then Some (unat (b ! off) * 2 ^ 24 + unat (b ! (off + 1)) * 2 ^ 16
                 + unat (b ! (off + 2)) * 2 ^ 8 + unat (b ! (off + 3)))
      else None)"

section \<open>The frame decoder of \<^verbatim>\<open>receiveStream\<close> and \<^verbatim>\<open>createTransStream\<close>\<close>

text \<open>
  Both functions carry the same \<^verbatim>\<open>stream.on("data", ...)\<close> listener over two local
  buffers \<^verbatim>\<open>chunk\<close> and \<^verbatim>\<open>temp\<close>; they differ in the \<^verbatim>\<open>parser\<close> it calls and in the
  state that parser updates (\<open>parsed\<close>).
\<close>

record 's decoder =
  chunk :: buffer
  temp :: buffer
  parsed :: 's

definition decoder_init :: "'s \<Rightarrow> 's decoder" where
  "decoder_init s = \<lparr>chunk = [], temp = [], parsed = s\<rparr>"

text \<open>
  One run of the listener on a received \<open>buffer\<close>. \<^verbatim>\<open>subarray\<close> clamps its bounds to the
  buffer, as \<^const>\<open>take\<close> and \<^const>\<open>drop\<close> do. The result pairs the exception that left
  the run, if any, with the variables as the run left them: a throw of the parser comes
  after \<^verbatim>\<open>temp\<close> and \<^verbatim>\<open>chunk\<close> were reassigned and before \<^verbatim>\<open>chunk\<close> is emptied, and both
  parsers throw before they change anything of their own. The \<^verbatim>\<open>RangeError\<close> of the read
  is excluded by the length test before it.
\<close>

definition on_data ::
  "(buffer \<Rightarrow> 's \<Rightarrow> api_error + 's) \<Rightarrow> 's decoder \<Rightarrow> buffer \<Rightarrow> api_error option \<times> 's decoder"
where
  "on_data parser d buf =
     (let c = temp d @ chunk d @ buf in
      if length c < 5 then (None, d\<lparr>chunk := c\<rparr>)
      else
        (case readUint32BE c 1 of
           None \<Rightarrow> (Some RangeError, d\<lparr>chunk := c\<rparr>)
         | Some chunkSize \<Rightarrow>
             (let t = drop (chunkSize + 5) c;
                  c' = take (chunkSize + 5) c
              in if length c' < chunkSize + 5 then (None, d\<lparr>chunk := c', temp := t\<rparr>)
                 else
                   (case parser (drop 5 c') (parsed d) of
                      Inl e \<Rightarrow> (Some e, d\<lparr>chunk := c', temp := t\<rparr>)
                    | Inr s \<Rightarrow> (None, \<lparr>chunk = [], temp = t, parsed = s\<rparr>)))))"

text \<open>
  The \<^verbatim>\<open>data\<close> events of one upstream response, in order. An exception that leaves a run
  is caught by nothing in \<^verbatim>\<open>chat.ts\<close>: it rejects no promise and ends no stream, and the
  listener stays registered. The walk therefore goes on from the variables that run left,
  and the exceptions are collected in order; what the runtime does with them is its own
  business.
\<close>

fun emit_data ::
  "(buffer \<Rightarrow> 's \<Rightarrow> api_error + 's) \<Rightarrow> 's decoder \<Rightarrow> buffer list \<Rightarrow> api_error list \<times> 's decoder"
where
  "emit_data parser d [] = ([], d)"
| "emit_data parser d (buf # bufs) =
     (case on_data parser d buf of
        (thrown, d') \<Rightarrow>
          (case emit_data parser d' bufs of
             (es, d'') \<Rightarrow> ((case thrown of None \<Rightarrow> es | Some e \<Rightarrow> e # es), d'')))"

text \<open>How the upstream response ends: its \<^verbatim>\<open>close\<close> event, or an \<^verbatim>\<open>error\<close> event first.\<close>

datatype upstream_end = Close | Error api_error

section \<open>Provider events\<close>

text \<open>
  What \<^verbatim>\<open>JSON.parse\<close> gives for a frame payload, as far as the parsers look at it:
  \<^verbatim>\<open>{error:{code,message}}\<close>, \<^verbatim>\<open>{pipelineEvent:{eventSearch:{results:[{title,url}]}}}\<close>,
  \<^verbatim>\<open>{textEvent:{text}}\<close>, \<^verbatim>\<open>{doneEvent:{}}\<close>. The parsers sniff the fields in this
  order with JavaScript truthiness (an empty string is falsy, an empty array is truthy),
  so the fields are kept side by side rather than as a tagged union.
\<close>

record search_result =
  sr_title :: string
  sr_url :: string

record error_obj =
  err_code :: string
  err_message :: string

record text_event =
  te_text :: string

text \<open>\<open>eventSearch_results\<close> is \<open>Some rs\<close> when \<^verbatim>\<open>eventSearch\<close> and its \<^verbatim>\<open>results\<close> are both there.\<close>

record pipeline_event =
  eventSearch_results :: "search_result list option"

record provider_result =
  r_error :: "error_obj option"
  r_pipelineEvent :: "pipeline_event option"
  r_textEvent :: "text_event option"
  r_doneEvent :: bool

definition no_event :: provider_result where
  "no_event = \<lparr>r_error = None, r_pipelineEvent = None, r_textEvent = None, r_doneEvent = False\<rparr>"

definition ErrorEvent :: "string \<Rightarrow> string \<Rightarrow> provider_result" where
  "ErrorEvent c m = no_event\<lparr>r_error := Some \<lparr>err_code = c, err_message = m\<rparr>\<rparr>"

definition SearchEvent :: "search_result list \<Rightarrow> provider_result" where
  "SearchEvent rs = no_event\<lparr>r_pipelineEvent := Some \<lparr>eventSearch_results = Some rs\<rparr>\<rparr>"

definition TextEvent :: "string \<Rightarrow> provider_result" where
  "TextEvent t = no_event\<lparr>r_textEvent := Some \<lparr>te_text = t\<rparr>\<rparr>"

definition DoneEvent :: provider_result where
  "DoneEvent = no_event\<lparr>r_doneEvent := True\<rparr>"

text \<open>\<^verbatim>\<open>result.error && result.error.code\<close> and \<^verbatim>\<open>result.textEvent && result.textEvent.text\<close>.\<close>

definition error_code_truthy :: "provider_result \<Rightarrow> bool" where
  "error_code_truthy r = (case r_error r of None \<Rightarrow> False | Some e \<Rightarrow> err_code e \<noteq> [])"

definition text_truthy :: "provider_result \<Rightarrow> bool" where
  "text_truthy r = (case r_textEvent r of None \<Rightarrow> False | Some t \<Rightarrow> te_text t \<noteq> [])"

section \<open>Text constants of the transcoder\<close>

definition newline :: string where
  "newline = [CHR 0x0A]"

text \<open>The prefix of the service-unavailable notice, up to and including the \<^verbatim>\<open>[\<close>.\<close>

definition notice_prefix :: string where
  "notice_prefix = [CHR 0xE6, CHR 0x9C, CHR 0x8D, CHR 0xE5, CHR 0x8A, CHR 0xA1, CHR 0xE6, CHR 0x9A,
     CHR 0x82, CHR 0xE6, CHR 0x97, CHR 0xB6, CHR 0xE4, CHR 0xB8, CHR 0x8D, CHR 0xE5, CHR 0x8F, CHR 0xAF,
     CHR 0xE7, CHR 0x94, CHR 0xA8, CHR 0xEF, CHR 0xBC, CHR 0x8C, CHR 0xE7, CHR 0xAC, CHR 0xAC, CHR 0xE4,
     CHR 0xB8, CHR 0x89, CHR 0xE6, CHR 0x96, CHR 0xB9, CHR 0xE5, CHR 0x93, CHR 0x8D, CHR 0xE5, CHR 0xBA,
     CHR 0x94, CHR 0xE9, CHR 0x94, CHR 0x99, CHR 0xE8, CHR 0xAF, CHR 0xAF, CHR 0xEF, CHR 0xBC, CHR 0x9A]
     @ ''[''"

definition unavailable_notice :: "error_obj \<Rightarrow> string" where
  "unavailable_notice e = notice_prefix @ err_code e @ ''] '' @ err_message e"

text \<open>The heading of the results-from block, with the two newlines before and the one after.\<close>

definition results_from :: string where
  "results_from = [CHR 0x0A, CHR 0x0A, CHR 0xE6, CHR 0x90, CHR 0x9C, CHR 0xE7, CHR 0xB4, CHR 0xA2,
     CHR 0xE7, CHR 0xBB, CHR 0x93, CHR 0xE6, CHR 0x9E, CHR 0x9C, CHR 0xE6, CHR 0x9D, CHR 0xA5, CHR 0xE8,
     CHR 0x87, CHR 0xAA, CHR 0xEF, CHR 0xBC, CHR 0x9A, CHR 0x0A]"

text \<open>The word put before each result in the streaming search chunk, with its space.\<close>

definition searching :: string where
  "searching = [CHR 0xE6, CHR 0xA3, CHR 0x80, CHR 0xE7, CHR 0xB4, CHR 0xA2] @ '' ''"

definition done_line :: string where
  "done_line = ''data: [DONE]'' @ newline @ newline"

text \<open>\<^verbatim>\<open>s.replace(/\n$/, "")\<close>: without the \<^verbatim>\<open>m\<close> flag, one newline at the very end goes.\<close>

definition replace_final_newline :: "string \<Rightarrow> string" where
  "replace_final_newline s = (if s \<noteq> [] \<and> last s = CHR 0x0A then butlast s else s)"

section \<open>The buffered transcoder: \<^verbatim>\<open>receiveStream\<close>\<close>

record usage =
  prompt_tokens :: nat
  completion_tokens :: nat
  total_tokens :: nat

record chat_message =
  msg_role :: string
  msg_content :: string

record choice =
  ch_index :: nat
  ch_message :: chat_message
  ch_finish_reason :: string

record completion =
  cmpl_id :: string
  cmpl_model :: string
  cmpl_object :: string
  cmpl_choices :: "choice list"
  cmpl_usage :: usage
  cmpl_created :: nat

text \<open>The local variables \<^verbatim>\<open>data\<close> and \<^verbatim>\<open>refContent\<close> the parser closes over.\<close>

record recv_state =
  rs_data :: completion
  rs_refContent :: string

definition recv_init :: "string \<Rightarrow> string \<Rightarrow> nat \<Rightarrow> recv_state" where
  "recv_init model convId now =
     \<lparr>rs_data =
        \<lparr>cmpl_id = convId, cmpl_model = model, cmpl_object = ''chat.completion'',
         cmpl_choices =
           [\<lparr>ch_index = 0, ch_message = \<lparr>msg_role = ''assistant'', msg_content = []\<rparr>,
             ch_finish_reason = ''stop''\<rparr>],
         cmpl_usage = \<lparr>prompt_tokens = 1, completion_tokens = 1, total_tokens = 2\<rparr>,
         cmpl_created = now\<rparr>,
      rs_refContent = []\<rparr>"

text \<open>\<^verbatim>\<open>data.choices[0].message.content += s\<close>; a \<^verbatim>\<open>TypeError\<close> were there no first choice.\<close>

definition append_content :: "recv_state \<Rightarrow> string \<Rightarrow> api_error + recv_state" where
  "append_content st s =
     (case cmpl_choices (rs_data st) of
        [] \<Rightarrow> Inl TypeError
      | c # cs \<Rightarrow>
          Inr (st\<lparr>rs_data := (rs_data st)\<lparr>cmpl_choices :=
                 c\<lparr>ch_message := (ch_message c)\<lparr>msg_content := msg_content (ch_message c) @ s\<rparr>\<rparr> # cs\<rparr>\<rparr>))"

definition result_line :: "search_result \<Rightarrow> string" where
  "result_line v = sr_title v @ ''('' @ sr_url v @ '')'' @ newline"

text \<open>The body of \<^verbatim>\<open>parser\<close> after \<^verbatim>\<open>JSON.parse\<close> succeeded.\<close>

definition recv_result :: "provider_result \<Rightarrow> recv_state \<Rightarrow> api_error + recv_state" where
  "recv_result r st =
     (if error_code_truthy r then append_content st (unavailable_notice (the (r_error r)))
      else if r_pipelineEvent r \<noteq> None then
        (case eventSearch_results (the (r_pipelineEvent r)) of
           None \<Rightarrow> Inr st
         | Some rs \<Rightarrow> Inr (st\<lparr>rs_refContent := foldl (\<lambda>str v. str @ result_line v) [] rs\<rparr>))
      else if text_truthy r then append_content st (te_text (the (r_textEvent r)))
      else if r_doneEvent r then
        append_content st
          (if rs_refContent st \<noteq> [] then results_from @ replace_final_newline (rs_refContent st)
           else [])
      else Inr st)"

text \<open>
  \<^verbatim>\<open>parser\<close> of \<^verbatim>\<open>receiveStream\<close>. \<open>parse\<close> stands for \<^verbatim>\<open>JSON.parse(buffer.toString())\<close>
  under \<^verbatim>\<open>_.attempt\<close>: \<open>None\<close> when it raised.
\<close>

definition recv_parser ::
  "(buffer \<Rightarrow> provider_result option) \<Rightarrow> buffer \<Rightarrow> recv_state \<Rightarrow> api_error + recv_state"
where
  "recv_parser parse payload st =
     (case parse payload of
        None \<Rightarrow> Inl StreamResponseInvalid
      | Some r \<Rightarrow> recv_result r st)"

text \<open>
  \<^verbatim>\<open>receiveStream\<close> on the \<^verbatim>\<open>data\<close> events \<open>bufs\<close> and the end \<open>fin\<close>: the promise resolves
  with \<^verbatim>\<open>data\<close> on \<^verbatim>\<open>close\<close> (\<open>Inr\<close>) and is rejected on \<^verbatim>\<open>error\<close> (\<open>Inl\<close>), whatever the
  parser threw on the way.
\<close>

definition receiveStream ::
  "(buffer \<Rightarrow> provider_result option) \<Rightarrow> string \<Rightarrow> string \<Rightarrow> nat \<Rightarrow>
   buffer list \<Rightarrow> upstream_end \<Rightarrow> api_error + completion"
where
  "receiveStream parse model convId now bufs fin =
     (case fin of
        Close \<Rightarrow>
          Inr (rs_data (parsed (snd (emit_data (recv_parser parse)
                 (decoder_init (recv_init model convId now)) bufs))))
      | Error e \<Rightarrow> Inl e)"

text \<open>The parser body run over events already decoded, stopping at a throw.\<close>

fun recv_results :: "recv_state \<Rightarrow> provider_result list \<Rightarrow> api_error + recv_state" where
  "recv_results st [] = Inr st"
| "recv_results st (r # rs) =
     (case recv_result r st of Inl e \<Rightarrow> Inl e | Inr st' \<Rightarrow> recv_results st' rs)"

definition content_of :: "recv_state \<Rightarrow> string" where
  "content_of st = concat (map (\<lambda>c. msg_content (ch_message c)) (take 1 (cmpl_choices (rs_data st))))"

section \<open>The streaming transcoder: \<^verbatim>\<open>createTransStream\<close>\<close>

record delta =
  d_role :: "string option"
  d_content :: "string option"

record chunk_obj =
  ck_id :: string
  ck_model :: string
  ck_object :: string
  ck_index :: nat
  ck_delta :: delta
  ck_finish_reason :: "string option"
  ck_usage :: "usage option"
  ck_created :: nat

text \<open>
  What is handed to the \<^verbatim>\<open>PassThrough\<close>: \<open>Chunk c\<close> is the string
  \<^verbatim>\<open>`data: ${JSON.stringify(c)}\n\n`\<close>, \<open>Line s\<close> the literal string \<open>s\<close>. The stream is
  kept as the calls it accepted, \<^verbatim>\<open>write\<close> and \<^verbatim>\<open>end\<close>, in order. \<open>ts_closed\<close> is its
  \<^verbatim>\<open>closed\<close> property, which only the runtime sets, some time after the stream was ended
  or destroyed (every call of the code is guarded by it). \<open>ts_ended\<close> says that \<^verbatim>\<open>end\<close> was
  called: a \<^verbatim>\<open>write\<close> or an \<^verbatim>\<open>end\<close> with data on an ended stream is not accepted but
  destroys the stream with \<open>ERR_STREAM_WRITE_AFTER_END\<close>, the error its consumer then gets
  (\<open>ts_error\<close>). \<open>ts_endCallbacks\<close> counts the calls of \<^verbatim>\<open>endCallback\<close>.
\<close>

datatype written = Chunk chunk_obj | Line string

datatype ts_call = Write written | End written

record trans_state =
  ts_calls :: "ts_call list"
  ts_closed :: bool
  ts_ended :: bool
  ts_error :: "api_error option"
  ts_endCallbacks :: nat

text \<open>\<^verbatim>\<open>!transStream.closed && transStream.write(w)\<close> and the same with \<^verbatim>\<open>end\<close>.\<close>

definition ts_write :: "trans_state \<Rightarrow> written \<Rightarrow> trans_state" where
  "ts_write st w =
     (if ts_closed st then st
      else if ts_ended st then st\<lparr>ts_error := Some ERR_STREAM_WRITE_AFTER_END\<rparr>
      else st\<lparr>ts_calls := ts_calls st @ [Write w]\<rparr>)"

definition ts_end :: "trans_state \<Rightarrow> written \<Rightarrow> trans_state" where
  "ts_end st w =
     (if ts_closed st then st
      else if ts_ended st then st\<lparr>ts_error := Some ERR_STREAM_WRITE_AFTER_END\<rparr>
      else st\<lparr>ts_calls := ts_calls st @ [End w], ts_ended := True\<rparr>)"

definition sse_chunk ::
  "string \<Rightarrow> string \<Rightarrow> nat \<Rightarrow> delta \<Rightarrow> string option \<Rightarrow> usage option \<Rightarrow> chunk_obj"
where
  "sse_chunk convId model created dl fin us =
     \<lparr>ck_id = convId, ck_model = model, ck_object = ''chat.completion.chunk'', ck_index = 0,
      ck_delta = dl, ck_finish_reason = fin, ck_usage = us, ck_created = created\<rparr>"

definition placeholder_usage :: usage where
  "placeholder_usage = \<lparr>prompt_tokens = 1, completion_tokens = 1, total_tokens = 2\<rparr>"

definition opening_chunk :: "string \<Rightarrow> string \<Rightarrow> nat \<Rightarrow> chunk_obj" where
  "opening_chunk convId model created =
     sse_chunk convId model created \<lparr>d_role = Some ''assistant'', d_content = Some []\<rparr> None None"

definition error_chunk :: "string \<Rightarrow> string \<Rightarrow> nat \<Rightarrow> error_obj \<Rightarrow> chunk_obj" where
  "error_chunk convId model created e =
     sse_chunk convId model created \<lparr>d_role = None, d_content = Some (unavailable_notice e)\<rparr>
       (Some ''stop'') (Some placeholder_usage)"

definition content_chunk :: "string \<Rightarrow> string \<Rightarrow> nat \<Rightarrow> string \<Rightarrow> chunk_obj" where
  "content_chunk convId model created s =
     sse_chunk convId model created \<lparr>d_role = None, d_content = Some s\<rparr> None None"

definition done_chunk :: "string \<Rightarrow> string \<Rightarrow> nat \<Rightarrow> chunk_obj" where
  "done_chunk convId model created =
     sse_chunk convId model created \<lparr>d_role = None, d_content = None\<rparr>
       (Some ''stop'') (Some placeholder_usage)"

definition searching_line :: "search_result \<Rightarrow> string" where
  "searching_line v = searching @ sr_title v @ ''('' @ sr_url v @ '') ...'' @ newline"

text \<open>The stream as \<^verbatim>\<open>createTransStream\<close> has it before any upstream event.\<close>

definition trans_init :: "string \<Rightarrow> string \<Rightarrow> nat \<Rightarrow> trans_state" where
  "trans_init convId model created =
     ts_write \<lparr>ts_calls = [], ts_closed = False, ts_ended = False, ts_error = None,
                ts_endCallbacks = 0\<rparr>
       (Chunk (opening_chunk convId model created))"

text \<open>The body of its \<^verbatim>\<open>parser\<close> after \<^verbatim>\<open>JSON.parse\<close> succeeded.\<close>

definition trans_result ::
  "string \<Rightarrow> string \<Rightarrow> nat \<Rightarrow> provider_result \<Rightarrow> trans_state \<Rightarrow> trans_state"
where
  "trans_result convId model created r st =
     (if error_code_truthy r then
        (let st1 = ts_write st (Chunk (error_chunk convId model created (the (r_error r))));
             st2 = ts_end st1 (Line done_line)
         in st2\<lparr>ts_endCallbacks := ts_endCallbacks st2 + 1\<rparr>)
      else if r_pipelineEvent r \<noteq> None then
        (case eventSearch_results (the (r_pipelineEvent r)) of
           None \<Rightarrow> st
         | Some rs \<Rightarrow>
             ts_write st (Chunk (content_chunk convId model created
               (foldl (\<lambda>str v. str @ searching_line v) [] rs @ newline))))
      else if text_truthy r then
        ts_write st (Chunk (content_chunk convId model created (te_text (the (r_textEvent r)))))
      else if r_doneEvent r then
        (let st1 = ts_write st (Chunk (done_chunk convId model created));
             st2 = ts_end st1 (Line done_line)
         in st2\<lparr>ts_endCallbacks := ts_endCallbacks st2 + 1\<rparr>)
      else st)"

definition trans_parser ::
  "(buffer \<Rightarrow> provider_result option) \<Rightarrow> string \<Rightarrow> string \<Rightarrow> nat \<Rightarrow>
   buffer \<Rightarrow> trans_state \<Rightarrow> api_error + trans_state"
where
  "trans_parser parse convId model created payload st =
     (case parse payload of
        None \<Rightarrow> Inl StreamResponseInvalid
      | Some r \<Rightarrow> Inr (trans_result convId model created r st))"

text \<open>
  The listeners of the upstream's \<^verbatim>\<open>error\<close> and \<^verbatim>\<open>close\<close> events: both only end the
  stream with the sentinel line. The upstream emits \<^verbatim>\<open>close\<close> right after \<^verbatim>\<open>error\<close>, so an
  \<^verbatim>\<open>error\<close> runs both listeners in turn.
\<close>

definition trans_on_error :: "trans_state \<Rightarrow> trans_state" where
  "trans_on_error st = ts_end st (Line done_line)"

definition trans_on_close :: "trans_state \<Rightarrow> trans_state" where
  "trans_on_close st = ts_end st (Line done_line)"

definition trans_finish :: "trans_state \<Rightarrow> upstream_end \<Rightarrow> trans_state" where
  "trans_finish st fin =
     (case fin of
        Close \<Rightarrow> trans_on_close st
      | Error e \<Rightarrow> trans_on_close (trans_on_error st))"

text \<open>The parser body run over events already decoded.\<close>

definition trans_results ::
  "string \<Rightarrow> string \<Rightarrow> nat \<Rightarrow> trans_state \<Rightarrow> provider_result list \<Rightarrow> trans_state"
where
  "trans_results convId model created st rs =
     foldl (\<lambda>s r. trans_result convId model created r s) st rs"

text \<open>The chunks written so far that carry a finish reason.\<close>

definition finishing_chunks :: "trans_state \<Rightarrow> chunk_obj list" where
  "finishing_chunks st =
     concat (map (\<lambda>c. case c of Write (Chunk k) \<Rightarrow> (if ck_finish_reason k \<noteq> None then [k] else [])
                              | _ \<Rightarrow> []) (ts_calls st))"

section \<open>Retry of the orchestrator\<close>

definition MAX_RETRY_COUNT :: nat where
  "MAX_RETRY_COUNT = 0"

text \<open>
  The \<^verbatim>\<open>.catch\<close> of \<^verbatim>\<open>createCompletion\<close> and \<^verbatim>\<open>createCompletionStream\<close>: \<open>pipeline n\<close> is
  what the wrapped \<^verbatim>\<open>async\<close> body settles with on the call with \<^verbatim>\<open>retryCount = n\<close>.
\<close>

function createCompletion :: "(nat \<Rightarrow> api_error + 'a) \<Rightarrow> nat \<Rightarrow> api_error + 'a" where
  "createCompletion pipeline retryCount =
     (case pipeline retryCount of
        Inr answer \<Rightarrow> Inr answer
      | Inl err \<Rightarrow>
          (if retryCount < MAX_RETRY_COUNT then createCompletion pipeline (retryCount + 1)
           else Inl err))"
  by pat_completeness auto
termination
  by (relation "measure (\<lambda>(pipeline, retryCount). MAX_RETRY_COUNT - retryCount)") auto

declare createCompletion.simps [simp del]

section \<open>The lease store: \<^verbatim>\<open>checkResult\<close>, \<^verbatim>\<open>requestToken\<close>, \<^verbatim>\<open>acquireToken\<close>\<close>

definition ACCESS_TOKEN_EXPIRES :: nat where
  "ACCESS_TOKEN_EXPIRES = 900"

text \<open>The object \<^verbatim>\<open>requestToken\<close> builds from a successful exchange.\<close>

record lease =
  l_deviceId :: string
  l_accessToken :: string
  l_refreshToken :: string
  l_refreshTime :: nat

text \<open>
  A promise of \<^verbatim>\<open>requestToken\<close> is fulfilled with a lease or, for a queued caller of a
  failed exchange, with the error object itself (\<^verbatim>\<open>resolve(err)\<close>); so either can be
  what \<^verbatim>\<open>acquireToken\<close> stores in \<^verbatim>\<open>accessTokenMap\<close>.
\<close>

datatype settled_value = LeaseV lease | ErrorV api_error

datatype 'a promise_outcome = Fulfilled 'a | Rejected api_error

text \<open>
  The two module-level maps, and the \<^verbatim>\<open>RegisterDevice\<close> requests sent so far (by refresh
  token). A queue holds the \<^verbatim>\<open>resolve\<close> callbacks of the waiting callers, named here by
  caller.
\<close>

record store =
  accessTokenMap :: "string \<rightharpoonup> settled_value"
  accessTokenRequestQueueMap :: "string \<rightharpoonup> nat list"
  posts :: "string list"

definition store_init :: store where
  "store_init = \<lparr>accessTokenMap = Map.empty, accessTokenRequestQueueMap = Map.empty, posts = []\<rparr>"

text \<open>
  \<^verbatim>\<open>result.data\<close> of a provider response: falsy, an object whose \<^verbatim>\<open>code\<close> is a string
  (with its \<^verbatim>\<open>message\<close>), or any other body. An HTTP call is a rejection of the client
  (\<open>Inl\<close>) or such a response.
\<close>

datatype 'a response_data = NoData | Coded string string | Body 'a

text \<open>
  \<^verbatim>\<open>checkResult\<close>: what it returns or throws (the message of the exception is kept without
  its fixed prefix), and what it does to the store.
\<close>

definition check_data :: "'a response_data \<Rightarrow> api_error + 'a option" where
  "check_data d =
     (case d of
        NoData \<Rightarrow> Inr None
      | Body b \<Rightarrow> Inr (Some b)
      | Coded code message \<Rightarrow> Inl (API_REQUEST_FAILED message))"

definition checkResult :: "store \<Rightarrow> 'a response_data \<Rightarrow> string \<Rightarrow> store \<times> (api_error + 'a option)" where
  "checkResult st d refreshToken =
     (case d of
        Coded code message \<Rightarrow>
          ((if code = ''unauthenticated''
            then st\<lparr>accessTokenMap := (accessTokenMap st)(refreshToken := None)\<rparr>
            else st),
           check_data d)
      | _ \<Rightarrow> (st, check_data d))"

text \<open>The body of \<^verbatim>\<open>RegisterDevice\<close>: \<^verbatim>\<open>accessToken.raw\<close>, \<^verbatim>\<open>refreshToken.raw\<close>, \<^verbatim>\<open>device.deviceID\<close>.\<close>

record device_registration =
  reg_accessToken :: string
  reg_refreshToken :: string
  reg_deviceID :: string

text \<open>
  \<^verbatim>\<open>accessTokenRequestQueueMap\<close> is a plain object, so the lookup
  \<^verbatim>\<open>accessTokenRequestQueueMap[refreshToken]\<close> also finds what every object inherits: these
  are the property names of \<^verbatim>\<open>Object.prototype\<close>. The queues the code itself puts there are
  the entries of the map in \<^typ>\<open>store\<close>.
\<close>

definition inherited_key :: "string \<Rightarrow> bool" where
  "inherited_key k =
     List.member
       [''constructor'', ''__defineGetter__'', ''__defineSetter__'', ''hasOwnProperty'',
        ''__lookupGetter__'', ''__lookupSetter__'', ''isPrototypeOf'', ''propertyIsEnumerable'',
        ''toString'', ''valueOf'', ''__proto__'', ''toLocaleString''] k"

text \<open>
  \<^verbatim>\<open>requestToken\<close> up to its first suspension: a caller that finds a queue for the token
  joins it; one that finds an inherited property instead calls a \<^verbatim>\<open>push\<close> that is not
  there, and its promise is rejected with the \<^verbatim>\<open>TypeError\<close> without anything being sent;
  otherwise it opens an empty queue and sends the request.
\<close>

datatype role_in_flight = Leader | Queued | Threw api_error

definition requestToken_call :: "store \<Rightarrow> string \<Rightarrow> nat \<Rightarrow> store \<times> role_in_flight" where
  "requestToken_call st refreshToken caller =
     (case accessTokenRequestQueueMap st refreshToken of
        Some queue \<Rightarrow>
          (st\<lparr>accessTokenRequestQueueMap :=
                (accessTokenRequestQueueMap st)(refreshToken \<mapsto> queue @ [caller])\<rparr>, Queued)
      | None \<Rightarrow>
          (if inherited_key refreshToken then (st, Threw TypeError)
           else
             (st\<lparr>accessTokenRequestQueueMap := (accessTokenRequestQueueMap st)(refreshToken \<mapsto> []),
                 posts := posts st @ [refreshToken]\<rparr>, Leader)))"

text \<open>
  The inner \<^verbatim>\<open>async\<close> function once \<^verbatim>\<open>axios.post\<close> has settled with \<open>r\<close> at time \<open>now\<close>;
  destructuring the \<^verbatim>\<open>null\<close> that \<^verbatim>\<open>checkResult\<close> returns for an empty body throws.
\<close>

definition register_device ::
  "store \<Rightarrow> string \<Rightarrow> nat \<Rightarrow> (api_error + device_registration response_data) \<Rightarrow> store \<times> (api_error + lease)"
where
  "register_device st refreshToken now r =
     (case r of
        Inl e \<Rightarrow> (st, Inl e)
      | Inr data \<Rightarrow>
          (case checkResult st data refreshToken of
             (st', Inl e) \<Rightarrow> (st', Inl e)
           | (st', Inr None) \<Rightarrow> (st', Inl TypeError)
           | (st', Inr (Some reg)) \<Rightarrow>
               (st', Inr \<lparr>l_deviceId = reg_deviceID reg, l_accessToken = reg_accessToken reg,
                          l_refreshToken = reg_refreshToken reg,
                          l_refreshTime = now + ACCESS_TOKEN_EXPIRES\<rparr>)))"

text \<open>
  The \<^verbatim>\<open>.then\<close> and \<^verbatim>\<open>.catch\<close> of \<^verbatim>\<open>requestToken\<close> and its last two lines: every queued
  \<^verbatim>\<open>resolve\<close> is called with the lease or with the error, the queue is deleted, and the
  caller that sent the request gets the lease or the error thrown. The result is the store,
  the outcome of that caller's promise, and the outcomes of the queued callers' promises.
\<close>

definition requestToken_settle ::
  "store \<Rightarrow> string \<Rightarrow> nat \<Rightarrow> (api_error + device_registration response_data) \<Rightarrow>
   store \<times> settled_value promise_outcome \<times> (nat \<times> settled_value promise_outcome) list"
where
  "requestToken_settle st refreshToken now r =
     (case register_device st refreshToken now r of
        (st', res) \<Rightarrow>
          (let v = (case res of Inl err \<Rightarrow> ErrorV err | Inr l \<Rightarrow> LeaseV l);
               resolved = (case accessTokenRequestQueueMap st' refreshToken of
                             None \<Rightarrow> []
                           | Some queue \<Rightarrow> map (\<lambda>caller. (caller, Fulfilled v)) queue)
           in (st'\<lparr>accessTokenRequestQueueMap := (accessTokenRequestQueueMap st')(refreshToken := None)\<rparr>,
               (case res of Inl err \<Rightarrow> Rejected err | Inr l \<Rightarrow> Fulfilled (LeaseV l)),
               resolved)))"

text \<open>
  What \<^verbatim>\<open>acquireToken\<close> returns. Read from an error object, \<^verbatim>\<open>deviceId\<close>, \<^verbatim>\<open>accessToken\<close>,
  \<^verbatim>\<open>refreshToken\<close> and \<^verbatim>\<open>refreshTime\<close> are undefined: the token is then the string
  \<^verbatim>\<open>undefined...undefined\<close>, and \<^verbatim>\<open>unixTimestamp() > undefined\<close> is false.
\<close>

record acquired =
  a_deviceId :: "string option"
  a_token :: string

definition js_string :: "string option \<Rightarrow> string" where
  "js_string v = (case v of None \<Rightarrow> ''undefined'' | Some s \<Rightarrow> s)"

definition expired :: "nat \<Rightarrow> settled_value \<Rightarrow> bool" where
  "expired now v = (case v of LeaseV l \<Rightarrow> now > l_refreshTime l | ErrorV e \<Rightarrow> False)"

definition token_of :: "settled_value \<Rightarrow> acquired" where
  "token_of v =
     (case v of
        LeaseV l \<Rightarrow> \<lparr>a_deviceId = Some (l_deviceId l),
                     a_token = l_accessToken l @ ''...'' @ l_refreshToken l\<rparr>
      | ErrorV e \<Rightarrow> \<lparr>a_deviceId = None, a_token = js_string None @ ''...'' @ js_string None\<rparr>)"

text \<open>
  \<^verbatim>\<open>acquireToken\<close> in the pieces between its suspensions: from the call to the first
  \<^verbatim>\<open>await\<close> it reaches (or to its return), from the first \<^verbatim>\<open>await\<close> on, and from the
  second on. \<open>now\<close> is \<^verbatim>\<open>util.unixTimestamp()\<close> when the piece runs. What an \<^verbatim>\<open>await\<close>
  resumes with is the outcome of the \<^verbatim>\<open>requestToken\<close> promise: that of
  \<^const>\<open>requestToken_settle\<close> for the caller that sent the request and for the queued
  ones, the rejection at once for one that threw.
\<close>

datatype acquire_step = Returned acquired | Awaiting1 | Awaiting2

definition acquireToken_check ::
  "store \<Rightarrow> string \<Rightarrow> nat \<Rightarrow> nat \<Rightarrow> settled_value \<Rightarrow> store \<times> acquire_step"
where
  "acquireToken_check st refreshToken now caller result =
     (if expired now result then (fst (requestToken_call st refreshToken caller), Awaiting2)
      else (st, Returned (token_of result)))"

definition acquireToken_call :: "store \<Rightarrow> string \<Rightarrow> nat \<Rightarrow> nat \<Rightarrow> store \<times> acquire_step" where
  "acquireToken_call st refreshToken now caller =
     (case accessTokenMap st refreshToken of
        None \<Rightarrow> (fst (requestToken_call st refreshToken caller), Awaiting1)
      | Some result \<Rightarrow> acquireToken_check st refreshToken now caller result)"

definition acquireToken_resume1 ::
  "store \<Rightarrow> string \<Rightarrow> nat \<Rightarrow> nat \<Rightarrow> settled_value promise_outcome \<Rightarrow>
   api_error + store \<times> acquire_step"
where
  "acquireToken_resume1 st refreshToken now caller outcome =
     (case outcome of
        Rejected err \<Rightarrow> Inl err
      | Fulfilled result \<Rightarrow>
          Inr (acquireToken_check
                 (st\<lparr>accessTokenMap := (accessTokenMap st)(refreshToken \<mapsto> result)\<rparr>)
                 refreshToken now caller result))"

definition acquireToken_resume2 ::
  "store \<Rightarrow> string \<Rightarrow> settled_value promise_outcome \<Rightarrow> api_error + store \<times> acquire_step"
where
  "acquireToken_resume2 st refreshToken outcome =
     (case outcome of
        Rejected err \<Rightarrow> Inl err
      | Fulfilled result \<Rightarrow>
          Inr (st\<lparr>accessTokenMap := (accessTokenMap st)(refreshToken \<mapsto> result)\<rparr>,
               Returned (token_of result)))"

text \<open>Several callers calling \<^verbatim>\<open>acquireToken\<close> one after the other before anything settles.\<close>

definition acquire_calls :: "store \<Rightarrow> string \<Rightarrow> nat \<Rightarrow> nat list \<Rightarrow> store" where
  "acquire_calls st refreshToken now callers =
     foldl (\<lambda>s caller. fst (acquireToken_call s refreshToken now caller)) st callers"

text \<open>
  The send of \<^verbatim>\<open>createCompletion\<close> once the token is acquired: the streamed body of
  \<^verbatim>\<open>SendMessageStream\<close> goes to \<^verbatim>\<open>receiveStream\<close> and is never handed to \<^verbatim>\<open>checkResult\<close>,
  so the store is after it as it was before.
\<close>

definition send_message_stage ::
  "store \<Rightarrow> (buffer \<Rightarrow> provider_result option) \<Rightarrow> string \<Rightarrow> string \<Rightarrow> nat \<Rightarrow>
   buffer list \<Rightarrow> upstream_end \<Rightarrow> store \<times> (api_error + completion)"
where
  "send_message_stage st parse model convId now bufs fin =
     (st, receiveStream parse model convId now bufs fin)"

section \<open>Messages of the caller\<close>

text \<open>
  A message is \<^verbatim>\<open>{role, content}\<close>; its content is a string or an array. Of an object in
  the array the code reads \<^verbatim>\<open>type\<close>, \<^verbatim>\<open>text\<close>, \<^verbatim>\<open>url\<close>, \<^verbatim>\<open>file_url.url\<close> and
  \<^verbatim>\<open>image_url.url\<close>: each field is \<open>None\<close> when it is missing (or, for the last two,
  when the holder is not an object or its \<^verbatim>\<open>url\<close> is not a string). \<open>Prim\<close> is an array
  element that is not an object. A \<^verbatim>\<open>null\<close> element or a content that is neither a string
  nor an array is outside this model.
\<close>

record part =
  p_type :: "string option"
  p_text :: "string option"
  p_url :: "string option"
  p_file_url :: "string option"
  p_image_url :: "string option"

datatype content_item = Obj part | Prim string

datatype content = Str string | Parts "content_item list"

record message =
  m_role :: "string option"
  m_content :: content

text \<open>\<^verbatim>\<open>['file', 'image_url'].includes(v['type'])\<close>.\<close>

definition is_file_or_image :: "part \<Rightarrow> bool" where
  "is_file_or_image p = (p_type p = Some ''file'' \<or> p_type p = Some ''image_url'')"

text \<open>The callback of \<^verbatim>\<open>lastMessage.content.forEach\<close>: the URLs it pushes for one element.\<close>

definition item_urls :: "content_item \<Rightarrow> string list" where
  "item_urls v =
     (case v of
        Prim x \<Rightarrow> []
      | Obj p \<Rightarrow>
          (if \<not> is_file_or_image p then []
           else if p_type p = Some ''file'' \<and> p_file_url p \<noteq> None then [the (p_file_url p)]
           else if p_type p = Some ''image_url'' \<and> p_image_url p \<noteq> None then [the (p_image_url p)]
           else []))"

definition extractRefFileUrls :: "message list \<Rightarrow> string list" where
  "extractRefFileUrls messages =
     (if messages = [] then []
      else (case m_content (last messages) of
              Parts vs \<Rightarrow> concat (map item_urls vs)
            | Str s \<Rightarrow> []))"

text \<open>
  The first step of \<^verbatim>\<open>createCompletion\<close> and \<^verbatim>\<open>createCompletionStream\<close>: the calls of
  \<^verbatim>\<open>uploadFile\<close> handed to \<^verbatim>\<open>Promise.all\<close>, one per extracted URL.
\<close>

definition upload_stage :: "(string \<Rightarrow> 'p) \<Rightarrow> message list \<Rightarrow> 'p list" where
  "upload_stage uploadFile messages =
     (let refFileUrls = extractRefFileUrls messages
      in if refFileUrls \<noteq> [] then map uploadFile refFileUrls else [])"

text \<open>
  What \<^verbatim>\<open>uploadFile\<close> returns, and the object \<^verbatim>\<open>messagesPrepare\<close> serializes; \<open>att_size\<close>
  is the number whose decimal string is the \<^verbatim>\<open>size\<close>.
\<close>

record attachment =
  attachmentType :: string
  attachmentId :: string
  att_name :: string
  att_width :: string
  att_height :: string
  att_size :: nat

record send_body =
  chatId :: string
  messageInfo_text :: string
  messageInfo_attachments :: "attachment list option"

text \<open>The contents of the two synthetic system messages.\<close>

definition file_attention :: string where
  "file_attention =
    [CHR 0xE4, CHR 0xBB, CHR 0xA5, CHR 0xE4, CHR 0xB8, CHR 0x8A, CHR 0xE4, CHR 0xB8, CHR 0xBA,
     CHR 0xE5, CHR 0x8E, CHR 0x86, CHR 0xE5, CHR 0x8F, CHR 0xB2, CHR 0xE6, CHR 0xB6, CHR 0x88,
     CHR 0xE6, CHR 0x81, CHR 0xAF, CHR 0xEF, CHR 0xBC, CHR 0x8C, CHR 0xE5, CHR 0x85, CHR 0xB3,
     CHR 0xE6, CHR 0xB3, CHR 0xA8, CHR 0xE4, CHR 0xBB, CHR 0xA5, CHR 0xE4, CHR 0xB8, CHR 0x8B,
     CHR 0xE7, CHR 0x94, CHR 0xA8, CHR 0xE6, CHR 0x88, CHR 0xB7, CHR 0xE5, CHR 0x8F, CHR 0x91,
     CHR 0xE9, CHR 0x80, CHR 0x81, CHR 0xE7, CHR 0x9A, CHR 0x84, CHR 0xE6, CHR 0x96, CHR 0x87,
     CHR 0xE4, CHR 0xBB, CHR 0xB6, CHR 0xE5, CHR 0x92, CHR 0x8C, CHR 0xE6, CHR 0xB6, CHR 0x88,
     CHR 0xE6, CHR 0x81, CHR 0xAF]"

definition message_attention :: string where
  "message_attention =
    [CHR 0xE4, CHR 0xBB, CHR 0xA5, CHR 0xE4, CHR 0xB8, CHR 0x8A, CHR 0xE4, CHR 0xB8, CHR 0xBA,
     CHR 0xE5, CHR 0x8E, CHR 0x86, CHR 0xE5, CHR 0x8F, CHR 0xB2, CHR 0xE6, CHR 0xB6, CHR 0x88,
     CHR 0xE6, CHR 0x81, CHR 0xAF, CHR 0xEF, CHR 0xBC, CHR 0x8C, CHR 0xE5, CHR 0x85, CHR 0xB3,
     CHR 0xE6, CHR 0xB3, CHR 0xA8, CHR 0xE4, CHR 0xBB, CHR 0xA5, CHR 0xE4, CHR 0xB8, CHR 0x8B,
     CHR 0xE7, CHR 0x94, CHR 0xA8, CHR 0xE6, CHR 0x88, CHR 0xB7, CHR 0xE6, CHR 0xB6, CHR 0x88,
     CHR 0xE6, CHR 0x81, CHR 0xAF]"

text \<open>
  The filter of \<^verbatim>\<open>messagesPrepare\<close>. \<open>isBASE64Data\<close> stands for \<^verbatim>\<open>util.isBASE64Data\<close>,
  which is applied to \<^verbatim>\<open>v['url']\<close>, a value that may be undefined.
\<close>

definition keep_item :: "(string option \<Rightarrow> bool) \<Rightarrow> content_item \<Rightarrow> bool" where
  "keep_item isBASE64Data v =
     (case v of
        Obj p \<Rightarrow> (if is_file_or_image p then \<not> isBASE64Data (p_url p) else True)
      | Prim x \<Rightarrow> True)"

definition strip_base64 :: "(string option \<Rightarrow> bool) \<Rightarrow> message \<Rightarrow> message" where
  "strip_base64 isBASE64Data m =
     (case m_content m of
        Parts vs \<Rightarrow> m\<lparr>m_content := Parts (filter (keep_item isBASE64Data) vs)\<rparr>
      | Str s \<Rightarrow> m)"

definition hasFileOrImage :: "message \<Rightarrow> bool" where
  "hasFileOrImage m =
     (case m_content m of
        Parts vs \<Rightarrow> list_ex (\<lambda>v. case v of Obj p \<Rightarrow> is_file_or_image p | Prim x \<Rightarrow> False) vs
      | Str s \<Rightarrow> False)"

definition system_message :: "string \<Rightarrow> message" where
  "system_message s = \<lparr>m_role = Some ''system'', m_content = Str s\<rparr>"

text \<open>
  \<^verbatim>\<open>'user:' + v['text'] || ""\<close> is \<^verbatim>\<open>('user:' + v['text']) || ""\<close>: the sum is never empty, and
  an undefined text is spelled out. \<^verbatim>\<open>message.role || "user"\<close> takes \<^verbatim>\<open>user\<close> for a missing
  or empty role.
\<close>

definition text_or_undefined :: "string option \<Rightarrow> string" where
  "text_or_undefined t = (case t of None \<Rightarrow> ''undefined'' | Some s \<Rightarrow> s)"

definition role_or_user :: "string option \<Rightarrow> string" where
  "role_or_user r = (case r of None \<Rightarrow> ''user'' | Some s \<Rightarrow> (if s = [] then ''user'' else s))"

text \<open>The two \<^verbatim>\<open>reduce\<close> callbacks that build the merged text.\<close>

definition merge_item :: "string \<Rightarrow> content_item \<Rightarrow> string" where
  "merge_item c v =
     (case v of
        Prim x \<Rightarrow> c
      | Obj p \<Rightarrow> (if p_type p \<noteq> Some ''text'' then c
                  else c @ ''user:'' @ text_or_undefined (p_text p) @ newline))"

definition merge_message :: "string \<Rightarrow> message \<Rightarrow> string" where
  "merge_message c m =
     (case m_content m of
        Parts vs \<Rightarrow> foldl merge_item c vs
      | Str s \<Rightarrow> c @ role_or_user (m_role m) @ '':'' @ s @ newline)"

text \<open>
  The variable \<^verbatim>\<open>content\<close> of \<^verbatim>\<open>messagesPrepare\<close>. With no message at all,
  \<^verbatim>\<open>latestMessage\<close> is undefined and reading its \<^verbatim>\<open>content\<close> throws.
  \<^verbatim>\<open>splice(length - 1, 0, x)\<close> puts \<open>x\<close> before the last element.
\<close>

definition merged_text :: "(string option \<Rightarrow> bool) \<Rightarrow> message list \<Rightarrow> api_error + string" where
  "merged_text isBASE64Data messages =
     (let validMessages = map (strip_base64 isBASE64Data) messages
      in if validMessages = [] then Inl TypeError
         else
           (let latestMessage = last validMessages;
                injected = (if hasFileOrImage latestMessage then system_message file_attention
                            else system_message message_attention);
                spliced = butlast validMessages @ [injected] @ [latestMessage]
            in Inr (foldl merge_message [] spliced @ ''assistant:'')))"

text \<open>
  \<^verbatim>\<open>wrapData\<close>: the bytes of the string behind a header of one zero byte and the length
  written by \<^verbatim>\<open>DataView.setUint32\<close>, big-endian, reduced modulo \<open>2 ^ 32\<close> (each byte is the
  value shifted down and cut to eight bits).
\<close>

definition Buffer_from :: "string \<Rightarrow> buffer" where
  "Buffer_from s = map (\<lambda>c. word_of_nat (of_char c)) s"

definition setUint32 :: "nat \<Rightarrow> buffer" where
  "setUint32 v = [word_of_nat (v div 2 ^ 24), word_of_nat (v div 2 ^ 16), word_of_nat (v div 2 ^ 8), word_of_nat v]"

definition wrapData :: "string \<Rightarrow> buffer" where
  "wrapData json = (let data = Buffer_from json in [0x00] @ setUint32 (length data) @ data)"

text \<open>
  \<open>stringify\<close> stands for \<^verbatim>\<open>JSON.stringify\<close> on the object
  \<^verbatim>\<open>{chatId, messageInfo: {text, attachments}}\<close>, where \<^verbatim>\<open>attachments\<close> is undefined
  (\<open>None\<close>) for an empty \<open>refs\<close>.
\<close>

definition messagesPrepare ::
  "(string option \<Rightarrow> bool) \<Rightarrow> (send_body \<Rightarrow> string) \<Rightarrow> string \<Rightarrow> message list \<Rightarrow> attachment list
   \<Rightarrow> api_error + buffer"
where
  "messagesPrepare isBASE64Data stringify convId messages refs =
     (case merged_text isBASE64Data messages of
        Inl e \<Rightarrow> Inl e
      | Inr c \<Rightarrow>
          Inr (wrapData (stringify \<lparr>chatId = convId, messageInfo_text = c,
                 messageInfo_attachments = (if refs \<noteq> [] then Some refs else None)\<rparr>)))"

section \<open>The attachment uploader: \<^verbatim>\<open>checkFileUrl\<close>, \<^verbatim>\<open>uploadFile\<close>\<close>

definition FILE_MAX_SIZE :: nat where
  "FILE_MAX_SIZE = 100 * 1024 * 1024"

text \<open>
  The network calls and the final delay of one \<^verbatim>\<open>uploadFile\<close>, in the order made:
  \<^verbatim>\<open>axios.head\<close>, \<^verbatim>\<open>axios.get\<close>, \<^verbatim>\<open>acquireToken\<close>, the \<^verbatim>\<open>PUT\<close> (by file name), a
  \<^verbatim>\<open>GetFileStatus\<close> request (by file id), \<^verbatim>\<open>setTimeout\<close> (milliseconds).
\<close>

datatype upload_action =
  Head string | Get string | Acquire | Put string | GetFileStatus string | Settle nat

text \<open>
  Of the probe's response the code reads the status and the \<^verbatim>\<open>content-length\<close> header
  (\<open>None\<close> when it is missing, empty or not a number); of a status body,
  \<^verbatim>\<open>fileStatus\<close> and whether \<^verbatim>\<open>needFurtherCall\<close> is truthy.
\<close>

record head_response =
  hr_status :: nat
  hr_content_length :: "nat option"

record poll_body =
  fileStatus :: nat
  needFurtherCall :: bool

text \<open>
  What one run of \<^verbatim>\<open>uploadFile\<close> gets from outside: \<^verbatim>\<open>util.isBASE64Data\<close>; for an inline
  source its MIME type, generated name and decoded bytes; for a remote one its base name
  without the query and the MIME type of that name; what each awaited call settles with;
  the status polls in order, each with the clock (\<^verbatim>\<open>util.unixTimestamp()\<close>) read after it;
  and the clock read before the first poll.
\<close>

record upload_env =
  env_isBASE64Data :: "string option \<Rightarrow> bool"
  inline_file :: "string \<Rightarrow> string \<times> string \<times> buffer"
  remote_name :: "string \<Rightarrow> string \<times> string"
  head_result :: "api_error + head_response"
  get_result :: "api_error + buffer"
  acquire_result :: "api_error + acquired"
  put_result :: "api_error + string response_data"
  poll_results :: "((api_error + poll_body response_data) \<times> nat) list"
  start_time :: nat

definition checkFileUrl :: "upload_env \<Rightarrow> string \<Rightarrow> upload_action list \<times> (api_error + unit)" where
  "checkFileUrl env fileUrl =
     (if env_isBASE64Data env (Some fileUrl) then ([], Inr ())
      else
        (case head_result env of
           Inl e \<Rightarrow> ([Head fileUrl], Inl e)
         | Inr result \<Rightarrow>
             (if hr_status result \<ge> 400 then ([Head fileUrl], Inl API_FILE_URL_INVALID)
              else
                (case hr_content_length result of
                   None \<Rightarrow> ([Head fileUrl], Inr ())
                 | Some fileSize \<Rightarrow>
                     (if fileSize > FILE_MAX_SIZE then ([Head fileUrl], Inl API_FILE_EXECEEDS_SIZE)
                      else ([Head fileUrl], Inr ()))))))"

definition failure_statuses :: "nat list" where
  "failure_statuses = [12, 22, 59, 404]"

text \<open>
  The \<^verbatim>\<open>while (needFurtherCall)\<close> loop over the polls the provider answers; \<open>None\<close> when
  it is still polling after the last of them. The effect of \<^verbatim>\<open>checkResult\<close> on the lease
  store does not bear on the loop and is left to \<^const>\<open>checkResult\<close>.
\<close>

fun poll_loop ::
  "string \<Rightarrow> nat \<Rightarrow> ((api_error + poll_body response_data) \<times> nat) list \<Rightarrow>
   upload_action list \<times> (api_error + unit) option"
where
  "poll_loop fileId startTime [] = ([], None)"
| "poll_loop fileId startTime ((result, now) # rest) =
     (case result of
        Inl e \<Rightarrow> ([GetFileStatus fileId], Some (Inl e))
      | Inr d \<Rightarrow>
          (case check_data d of
             Inl e \<Rightarrow> ([GetFileStatus fileId], Some (Inl e))
           | Inr None \<Rightarrow> ([GetFileStatus fileId], Some (Inl TypeError))
           | Inr (Some body) \<Rightarrow>
               (if List.member failure_statuses (fileStatus body)
                then ([GetFileStatus fileId], Some (Inl API_FILE_UPLOAD_FAILED))
                else if now - startTime > 60
                then ([GetFileStatus fileId], Some (Inl API_FILE_UPLOAD_TIMEOUT))
                else if needFurtherCall body
                then (case poll_loop fileId startTime rest of
                        (tr, r) \<Rightarrow> (GetFileStatus fileId # tr, r))
                else ([GetFileStatus fileId], Some (Inr ())))))"

text \<open>The bytes, name and MIME type of the file, then the transfer, the polls and the delay.\<close>

definition materialize ::
  "upload_env \<Rightarrow> string \<Rightarrow> upload_action list \<times> (api_error + string \<times> string \<times> buffer)"
where
  "materialize env fileUrl =
     (if env_isBASE64Data env (Some fileUrl) then ([], Inr (inline_file env fileUrl))
      else
        (case get_result env of
           Inl e \<Rightarrow> ([Get fileUrl], Inl e)
         | Inr fileData \<Rightarrow>
             ([Get fileUrl],
              Inr (snd (remote_name env fileUrl), fst (remote_name env fileUrl), fileData))))"

definition transfer ::
  "upload_env \<Rightarrow> string \<times> string \<times> buffer \<Rightarrow>
   upload_action list \<times> (api_error + attachment) option"
where
  "transfer env file =
     (case file of (mimeType, filename, fileData) \<Rightarrow>
        (case acquire_result env of
           Inl e \<Rightarrow> ([Acquire], Some (Inl e))
         | Inr lease \<Rightarrow>
             (case put_result env of
                Inl e \<Rightarrow> ([Acquire, Put filename], Some (Inl e))
              | Inr d \<Rightarrow>
                  (case check_data d of
                     Inl e \<Rightarrow> ([Acquire, Put filename], Some (Inl e))
                   | Inr None \<Rightarrow> ([Acquire, Put filename], Some (Inl TypeError))
                   | Inr (Some fileId) \<Rightarrow>
                       (case poll_loop fileId (start_time env) (poll_results env) of
                          (tr, None) \<Rightarrow> ([Acquire, Put filename] @ tr, None)
                        | (tr, Some (Inl e)) \<Rightarrow> ([Acquire, Put filename] @ tr, Some (Inl e))
                        | (tr, Some (Inr u)) \<Rightarrow>
                            ([Acquire, Put filename] @ tr @ [Settle 5000],
                             Some (Inr \<lparr>attachmentType = mimeType, attachmentId = fileId,
                                         att_name = filename, att_width = ''undefined'',
                                         att_height = ''undefined'',
                                         att_size = length fileData\<rparr>)))))))"

definition uploadFile ::
  "upload_env \<Rightarrow> string \<Rightarrow> upload_action list \<times> (api_error + attachment) option"
where
  "uploadFile env fileUrl =
     (case checkFileUrl env fileUrl of
        (tr1, Inl e) \<Rightarrow> (tr1, Some (Inl e))
      | (tr1, Inr u) \<Rightarrow>
          (case materialize env fileUrl of
             (tr2, Inl e) \<Rightarrow> (tr1 @ tr2, Some (Inl e))
           | (tr2, Inr file) \<Rightarrow>
               (case transfer env file of (tr3, r) \<Rightarrow> (tr1 @ tr2 @ tr3, r))))"

section \<open>Predicates used in the statements\<close>



text \<open>The fields of the completion that no parser run touches.\<close>

definition fixed_fields :: "completion \<Rightarrow> bool" where
  "fixed_fields c =
     (cmpl_object c = ''chat.completion''
      \<and> (\<exists>s. cmpl_choices c =
            [\<lparr>ch_index = 0, ch_message = \<lparr>msg_role = ''assistant'', msg_content = s\<rparr>,
              ch_finish_reason = ''stop''\<rparr>])
      \<and> cmpl_usage c = \<lparr>prompt_tokens = 1, completion_tokens = 1, total_tokens = 2\<rparr>)"

section \<open>Sample inputs\<close>

text \<open>A parser that only records the payloads it is handed, in order.\<close>

definition record_payload :: "buffer \<Rightarrow> buffer list \<Rightarrow> api_error + buffer list" where
  "record_payload payload seen = Inr (seen @ [payload])"

text \<open>Two frames with the one-byte payloads \<^verbatim>\<open>a\<close> and \<^verbatim>\<open>b\<close>.\<close>

definition frame_a :: buffer where
  "frame_a = [0, 0, 0, 0, 1, 0x61]"

definition frame_b :: buffer where
  "frame_b = [0, 0, 0, 0, 1, 0x62]"

text \<open>
  The payloads \<^verbatim>\<open>{"textEvent":{"text":"Hi"}}\<close> (27 bytes),
  \<^verbatim>\<open>{"error":{"code":"busy","message":"try later"}}\<close> (47 bytes) and
  \<^verbatim>\<open>{"error":{"code":"unauthenticated","message":"token expired"}}\<close> (62 bytes), each with
  its frame, and \<^verbatim>\<open>JSON.parse\<close> as far as the examples below use it: it gives the three
  objects for these payloads and raises on the payloads \<^verbatim>\<open>a\<close> and \<^verbatim>\<open>b\<close> of the frames
  above.
\<close>

definition text_hi_payload :: buffer where
  "text_hi_payload =
    [0x7B, 0x22, 0x74, 0x65, 0x78, 0x74, 0x45, 0x76, 0x65, 0x6E, 0x74, 0x22, 0x3A, 0x7B,
     0x22, 0x74, 0x65, 0x78, 0x74, 0x22, 0x3A, 0x22, 0x48, 0x69, 0x22, 0x7D, 0x7D]"

definition text_hi_frame :: buffer where
  "text_hi_frame = [0, 0, 0, 0, 27] @ text_hi_payload"

definition error_busy_payload :: buffer where
  "error_busy_payload =
    [0x7B, 0x22, 0x65, 0x72, 0x72, 0x6F, 0x72, 0x22, 0x3A, 0x7B, 0x22, 0x63, 0x6F, 0x64,
     0x65, 0x22, 0x3A, 0x22, 0x62, 0x75, 0x73, 0x79, 0x22, 0x2C, 0x22, 0x6D, 0x65, 0x73,
     0x73, 0x61, 0x67, 0x65, 0x22, 0x3A, 0x22, 0x74, 0x72, 0x79, 0x20, 0x6C, 0x61, 0x74,
     0x65, 0x72, 0x22, 0x7D, 0x7D]"

definition error_busy_frame :: buffer where
  "error_busy_frame = [0, 0, 0, 0, 47] @ error_busy_payload"

definition error_unauth_payload :: buffer where
  "error_unauth_payload =
    [0x7B, 0x22, 0x65, 0x72, 0x72, 0x6F, 0x72, 0x22, 0x3A, 0x7B, 0x22, 0x63, 0x6F, 0x64,
     0x65, 0x22, 0x3A, 0x22, 0x75, 0x6E, 0x61, 0x75, 0x74, 0x68, 0x65, 0x6E, 0x74, 0x69,
     0x63, 0x61, 0x74, 0x65, 0x64, 0x22, 0x2C, 0x22, 0x6D, 0x65, 0x73, 0x73, 0x61, 0x67,
     0x65, 0x22, 0x3A, 0x22, 0x74, 0x6F, 0x6B, 0x65, 0x6E, 0x20, 0x65, 0x78, 0x70, 0x69,
     0x72, 0x65, 0x64, 0x22, 0x7D, 0x7D]"

definition error_unauth_frame :: buffer where
  "error_unauth_frame = [0, 0, 0, 0, 62] @ error_unauth_payload"

definition parse_sample :: "buffer \<Rightarrow> provider_result option" where
  "parse_sample payload =
     (if payload = text_hi_payload then Some (TextEvent ''Hi'')
      else if payload = error_busy_payload then Some (ErrorEvent ''busy'' ''try later'')
      else if payload = error_unauth_payload
      then Some (ErrorEvent ''unauthenticated'' ''token expired'')
      else None)"

definition result_a :: search_result where
  "result_a = \<lparr>sr_title = ''A'', sr_url = ''http://a''\<rparr>"

definition result_b :: search_result where
  "result_b = \<lparr>sr_title = ''B'', sr_url = ''http://b''\<rparr>"

text \<open>
  A stand-in for \<^verbatim>\<open>util.isBASE64Data\<close> at concrete inputs (a string that starts with
  \<^verbatim>\<open>data:\<close>), one for \<^verbatim>\<open>JSON.stringify\<close> on a body without attachments, and two turns.
\<close>

definition isBASE64Data_sample :: "string option \<Rightarrow> bool" where
  "isBASE64Data_sample v = (case v of None \<Rightarrow> False | Some s \<Rightarrow> take 5 s = ''data:'')"

definition json_string :: "string \<Rightarrow> string" where
  "json_string s =
     [CHR 0x22]
     @ concat (map (\<lambda>c. if c = CHR 0x0A then [CHR 0x5C, CHR ''n'']
                         else if c = CHR 0x22 then [CHR 0x5C, CHR 0x22]
                         else if c = CHR 0x5C then [CHR 0x5C, CHR 0x5C]
                         else [c]) s)
     @ [CHR 0x22]"

definition stringify_sample :: "send_body \<Rightarrow> string" where
  "stringify_sample b =
     ''{'' @ json_string ''chatId'' @ '':'' @ json_string (chatId b) @ '',''
     @ json_string ''messageInfo'' @ '':{'' @ json_string ''text'' @ '':''
     @ json_string (messageInfo_text b) @ ''}}''"

definition turn_assistant_parts :: message where
  "turn_assistant_parts =
     \<lparr>m_role = Some ''assistant'',
      m_content = Parts [Obj \<lparr>p_type = Some ''text'', p_text = Some ''hi'', p_url = None,
                              p_file_url = None, p_image_url = None\<rparr>]\<rparr>"

definition turn_user_q :: message where
  "turn_user_q = \<lparr>m_role = Some ''user'', m_content = Str ''q''\<rparr>"

text \<open>
  Two callers of \<^verbatim>\<open>acquireToken\<close> for one token on an empty store, the store after their
  exchange failed, and that store with the error object cached; and a store that holds a
  lease.
\<close>

definition two_callers :: store where
  "two_callers = acquire_calls store_init ''key'' 100 [1, 2]"

definition after_failure :: store where
  "after_failure = fst (requestToken_settle two_callers ''key'' 101 (Inl NetworkError))"

definition poisoned :: store where
  "poisoned = after_failure\<lparr>accessTokenMap := (accessTokenMap after_failure)(''key'' \<mapsto> ErrorV NetworkError)\<rparr>"

definition cached_store :: store where
  "cached_store =
     store_init\<lparr>accessTokenMap :=
       [''key'' \<mapsto> LeaseV \<lparr>l_deviceId = ''d'', l_accessToken = ''a'', l_refreshToken = ''r'',
                                l_refreshTime = 1000\<rparr>]\<rparr>"






section \<open>Frame reassembly\<close>

text \<open>
  C1 (frame reassembly). The claim is that any split of a frame sequence gives the payloads
  of the unsplit bytes. The listener parses at most one frame per \<^verbatim>\<open>data\<close> event: the two
  frames \<^verbatim>\<open>a\<close> and \<^verbatim>\<open>b\<close> arriving in one buffer give the first payload only (the second
  frame stays in \<^verbatim>\<open>temp\<close>), while the same bytes split at the frame boundary give both.
  And a run that returns at the length test leaves \<^verbatim>\<open>temp\<close> as it was, so its bytes
  come twice in the next run: the same bytes split inside the second header give the
  payload \<^verbatim>\<open>a\<close> and then an empty payload.
\<close>

theorem decoder_packed_frames_lose_second:
  "emit_data record_payload (decoder_init []) [frame_a @ frame_b]
     = ([], \<lparr>chunk = [], temp = frame_b, parsed = [[0x61]]\<rparr>)
   \<and> emit_data record_payload (decoder_init []) [frame_a, frame_b]
     = ([], \<lparr>chunk = [], temp = [], parsed = [[0x61], [0x62]]\<rparr>)
   \<and> concat [frame_a @ [0, 0], [0], [0, 1, 0x62]] = frame_a @ frame_b
   \<and> emit_data record_payload (decoder_init []) [frame_a @ [0, 0], [0], [0, 1, 0x62]]
     = ([], \<lparr>chunk = [], temp = [0, 1, 0x62], parsed = [[0x61], []]\<rparr>)"
  by (simp add: decoder_init_def on_data_def readUint32BE_def
      record_payload_def frame_a_def frame_b_def)

section \<open>Shared facts about the decoder and the events\<close>

lemma on_data_complete:
  assumes "c = temp d @ chunk d @ buf"
    and "readUint32BE c 1 = Some n"
    and "n + 5 \<le> length c"
  shows "on_data parser d buf =
           (case parser (take n (drop 5 c)) (parsed d) of
              Inl e \<Rightarrow> (Some e, d\<lparr>chunk := take (n + 5) c, temp := drop (n + 5) c\<rparr>)
            | Inr s \<Rightarrow> (None, \<lparr>chunk = [], temp = drop (n + 5) c, parsed = s\<rparr>))"
proof -
  have "drop 5 (take (n + 5) c) = take n (drop 5 c)"
    by (simp add: drop_take)
  moreover have "\<not> length c < 5" "\<not> length (take (n + 5) c) < n + 5"
    using assms(3) by simp_all
  ultimately show ?thesis
    unfolding on_data_def Let_def assms(1) [symmetric] assms(2)
    by simp
qed

lemma foldl_append_lines: "foldl (\<lambda>str v. str @ f v) acc rs = acc @ concat (map f rs)"
  by (induction rs arbitrary: acc) simp_all

lemma event_simps:
  "error_code_truthy (SearchEvent rs) = False"
  "error_code_truthy (TextEvent t) = False"
  "error_code_truthy DoneEvent = False"
  "error_code_truthy (ErrorEvent c m) = (c \<noteq> [])"
  "r_pipelineEvent (SearchEvent rs) = Some \<lparr>eventSearch_results = Some rs\<rparr>"
  "r_pipelineEvent (TextEvent t) = None"
  "r_pipelineEvent DoneEvent = None"
  "text_truthy (TextEvent t) = (t \<noteq> [])"
  "text_truthy DoneEvent = False"
  "r_textEvent (TextEvent t) = Some \<lparr>te_text = t\<rparr>"
  "r_doneEvent DoneEvent = True"
  "r_error (ErrorEvent c m) = Some \<lparr>err_code = c, err_message = m\<rparr>"
  by (simp_all add: error_code_truthy_def text_truthy_def SearchEvent_def TextEvent_def
      DoneEvent_def ErrorEvent_def no_event_def)

lemma recv_result_SearchEvent:
  "recv_result (SearchEvent rs) st = Inr (st\<lparr>rs_refContent := concat (map result_line rs)\<rparr>)"
  by (simp add: recv_result_def event_simps foldl_append_lines)

lemma recv_result_DoneEvent:
  "recv_result DoneEvent st =
     append_content st (if rs_refContent st = [] then []
                        else results_from @ replace_final_newline (rs_refContent st))"
  by (simp add: recv_result_def event_simps)

lemma merge_item_acc: "merge_item c v = c @ merge_item [] v"
  by (auto simp: merge_item_def split: content_item.splits)

lemma foldl_merge_item: "foldl merge_item c vs = c @ concat (map (merge_item []) vs)"
proof -
  have "merge_item = (\<lambda>str v. str @ merge_item [] v)"
    by (intro ext) (rule merge_item_acc)
  then have "foldl merge_item c vs = foldl (\<lambda>str v. str @ merge_item [] v) c vs"
    by simp
  then show ?thesis
    by (simp only: foldl_append_lines)
qed

lemma merge_message_acc: "merge_message c m = c @ merge_message [] m"
  by (cases "m_content m") (simp_all add: merge_message_def foldl_merge_item)

lemma foldl_merge_message: "foldl merge_message c ms = c @ concat (map (merge_message []) ms)"
proof -
  have "merge_message = (\<lambda>str m. str @ merge_message [] m)"
    by (intro ext) (rule merge_message_acc)
  then have "foldl merge_message c ms = foldl (\<lambda>str m. str @ merge_message [] m) c ms"
    by simp
  then show ?thesis
    by (simp only: foldl_append_lines)
qed

lemma merge_item_dropped: "\<not> keep_item isB v \<Longrightarrow> merge_item [] v = []"
  by (auto simp: keep_item_def merge_item_def is_file_or_image_def split: content_item.splits if_splits)

lemma concat_filter_keep:
  "concat (map (merge_item []) (filter (keep_item isB) vs)) = concat (map (merge_item []) vs)"
  by (induction vs) (auto simp: merge_item_dropped)

lemma merge_strip: "merge_message [] (strip_base64 isB m) = merge_message [] m"
  by (cases "m_content m") (simp_all add: strip_base64_def merge_message_def foldl_merge_item concat_filter_keep)

lemma unat_byte: "unat (word_of_nat k :: byte) = k mod 256"
  by (simp add: unat_of_nat)

lemma be32_roundtrip:
  assumes "n < 2 ^ 32"
  shows "(n div 2 ^ 24 mod 256) * 2 ^ 24 + (n div 2 ^ 16 mod 256) * 2 ^ 16 + (n div 2 ^ 8 mod 256) * 2 ^ 8 + n mod 256 = (n::nat)"
proof -
  have a: "n mod (2 ^ 24 * 256) = 2 ^ 24 * (n div 2 ^ 24 mod 256) + n mod 2 ^ 24"
    by (rule mod_mult2_eq)
  have b: "n mod (2 ^ 16 * 256) = 2 ^ 16 * (n div 2 ^ 16 mod 256) + n mod 2 ^ 16"
    by (rule mod_mult2_eq)
  have c: "n mod (2 ^ 8 * 256) = 2 ^ 8 * (n div 2 ^ 8 mod 256) + n mod 2 ^ 8"
    by (rule mod_mult2_eq)
  have "n mod (2 ^ 24 * 256) = n"
    using assms by simp
  with a b c show ?thesis
    by simp
qed

lemma read_wrap: "length json < 2 ^ 32 \<Longrightarrow> readUint32BE (wrapData json) 1 = Some (length json)"
  using be32_roundtrip [of "length json"]
  by (simp add: readUint32BE_def wrapData_def setUint32_def Buffer_from_def unat_byte Let_def)


lemma wrapData_shape:
  "wrapData json ! 0 = 0 \<and> take 4 (drop 1 (wrapData json)) = setUint32 (length json)
   \<and> drop 5 (wrapData json) = Buffer_from json \<and> length (wrapData json) = length json + 5"
  by (simp add: wrapData_def setUint32_def Buffer_from_def Let_def)

lemma merged_text_snoc:
  "merged_text isB (ms @ [m]) =
     Inr (concat (map (merge_message []) ms)
          @ merge_message [] (system_message (if hasFileOrImage (strip_base64 isB m) then file_attention else message_attention))
          @ merge_message [] m @ ''assistant:'')"
  by (simp add: merged_text_def Let_def foldl_merge_message merge_strip o_def)

section \<open>The completion object of the buffered mode\<close>

lemma recv_init_fixed: "fixed_fields (rs_data (recv_init model convId now))"
  by (simp add: fixed_fields_def recv_init_def)

lemma append_content_fixed:
  "fixed_fields (rs_data st) \<Longrightarrow> append_content st s = Inr st' \<Longrightarrow> fixed_fields (rs_data st')"
  by (auto simp: fixed_fields_def append_content_def split: list.splits)

lemma recv_result_fixed:
  "fixed_fields (rs_data st) \<Longrightarrow> recv_result r st = Inr st' \<Longrightarrow> fixed_fields (rs_data st')"
  by (auto simp: recv_result_def split: if_splits option.splits dest: append_content_fixed)

lemma recv_parser_fixed:
  "fixed_fields (rs_data st) \<Longrightarrow> recv_parser parse b st = Inr st' \<Longrightarrow> fixed_fields (rs_data st')"
  by (auto simp: recv_parser_def split: option.splits dest: recv_result_fixed)

lemma emit_data_snd_Cons:
  "snd (emit_data parser d (buf # bufs)) = snd (emit_data parser (snd (on_data parser d buf)) bufs)"
  by (simp split: prod.splits)

lemma on_data_fixed:
  "fixed_fields (rs_data (parsed d)) \<Longrightarrow>
   fixed_fields (rs_data (parsed (snd (on_data (recv_parser parse) d buf))))"
  by (auto simp: on_data_def Let_def split: if_splits option.splits sum.splits
      dest: recv_parser_fixed)

lemma emit_data_fixed:
  "fixed_fields (rs_data (parsed d)) \<Longrightarrow>
   fixed_fields (rs_data (parsed (snd (emit_data (recv_parser parse) d bufs))))"
proof (induction bufs arbitrary: d)
  case Nil
  then show ?case by simp
next
  case (Cons b bufs)
  from on_data_fixed [OF Cons.prems]
  have "fixed_fields (rs_data (parsed (snd (on_data (recv_parser parse) d b))))" .
  from Cons.IH [OF this] show ?case
    by (simp only: emit_data_snd_Cons)
qed

text \<open>
  C9 (fixed placeholders of the buffered completion). Whatever the \<^verbatim>\<open>data\<close> events were
  and whatever \<^verbatim>\<open>JSON.parse\<close> made of the payloads, with or without a done event, an
  object that \<^verbatim>\<open>receiveStream\<close> resolves with has object \<^verbatim>\<open>chat.completion\<close>, exactly one
  choice, of index 0, role \<^verbatim>\<open>assistant\<close> and finish reason \<^verbatim>\<open>stop\<close>, and the usage 1, 1, 2.
\<close>

theorem buffered_completion_placeholders:
  assumes "receiveStream parse model convId now bufs fin = Inr c"
  shows "cmpl_object c = ''chat.completion''
      \<and> (\<exists>s. cmpl_choices c =
            [\<lparr>ch_index = 0, ch_message = \<lparr>msg_role = ''assistant'', msg_content = s\<rparr>,
              ch_finish_reason = ''stop''\<rparr>])
      \<and> cmpl_usage c = \<lparr>prompt_tokens = 1, completion_tokens = 1, total_tokens = 2\<rparr>"
proof -
  from assms
  have c: "c = rs_data (parsed (snd (emit_data (recv_parser parse)
                 (decoder_init (recv_init model convId now)) bufs)))"
    by (auto simp: receiveStream_def split: upstream_end.splits)
  have "fixed_fields (rs_data (parsed (decoder_init (recv_init model convId now))))"
    by (simp add: decoder_init_def recv_init_fixed)
  from emit_data_fixed [OF this] c show ?thesis
    by (simp add: fixed_fields_def)
qed

text \<open>A stream of one text frame that closes with no done event resolves, with these fields.\<close>

theorem buffered_completion_placeholders_witness:
  "\<exists>c. receiveStream parse_sample ''step'' ''conv'' 0 [text_hi_frame] Close = Inr c
       \<and> map (\<lambda>k. msg_content (ch_message k)) (cmpl_choices c) = [''Hi'']
       \<and> map ch_finish_reason (cmpl_choices c) = [''stop'']
       \<and> map ch_index (cmpl_choices c) = [0]
       \<and> cmpl_object c = ''chat.completion''
       \<and> cmpl_usage c = \<lparr>prompt_tokens = 1, completion_tokens = 1, total_tokens = 2\<rparr>"
proof -
  have run: "receiveStream parse_sample ''step'' ''conv'' 0 [text_hi_frame] Close =
      Inr \<lparr>cmpl_id = ''conv'', cmpl_model = ''step'', cmpl_object = ''chat.completion'',
           cmpl_choices =
             [\<lparr>ch_index = 0, ch_message = \<lparr>msg_role = ''assistant'', msg_content = ''Hi''\<rparr>,
               ch_finish_reason = ''stop''\<rparr>],
           cmpl_usage = \<lparr>prompt_tokens = 1, completion_tokens = 1, total_tokens = 2\<rparr>,
           cmpl_created = 0\<rparr>"
    by (simp add: receiveStream_def decoder_init_def on_data_def readUint32BE_def
        text_hi_frame_def text_hi_payload_def recv_parser_def parse_sample_def recv_result_def
        event_simps recv_init_def append_content_def)
  from buffered_completion_placeholders [OF run] run show ?thesis
    by simp
qed

section \<open>Malformed payloads\<close>

lemma createCompletion_once: "createCompletion pipeline retryCount = pipeline retryCount"
  by (subst createCompletion.simps) (simp add: MAX_RETRY_COUNT_def split: sum.splits)

lemma on_data_malformed:
  assumes "c = temp d @ chunk d @ buf"
    and "readUint32BE c 1 = Some n"
    and "n + 5 \<le> length c"
    and "parser (take n (drop 5 c)) (parsed d) = Inl e"
  shows "on_data parser d buf = (Some e, d\<lparr>chunk := take (n + 5) c, temp := drop (n + 5) c\<rparr>)"
  using assms(4) by (simp add: on_data_complete [OF assms(1-3)])

lemma parsers_throw:
  assumes "parse payload = None"
  shows "recv_parser parse payload st = Inl StreamResponseInvalid"
    and "trans_parser parse convId model created payload st' = Inl StreamResponseInvalid"
  using assms by (simp_all add: recv_parser_def trans_parser_def)

text \<open>
  C7 (a payload that is not JSON). The claim is that such a payload is a fatal decode error
  for its stream. The parsers do throw \<open>StreamResponseInvalid\<close> (\<open>parsers_throw\<close>) and
  the orchestrator retries nothing (\<open>createCompletion_once\<close>), but the throw only leaves
  the \<^verbatim>\<open>data\<close> listener. For the frame with the payload \<^verbatim>\<open>a\<close> and then \<^verbatim>\<open>close\<close>, the
  promise of \<^verbatim>\<open>receiveStream\<close> resolves with the empty answer and the request succeeds; when
  a text frame and a third frame follow, the malformed frame is parsed and thrown twice,
  the text frame after it is transcoded, and the promise resolves with \<^verbatim>\<open>Hi\<close>. In streaming
  mode the outgoing stream gets no error chunk and ends on \<^verbatim>\<open>close\<close> with the sentinel line.
\<close>

theorem malformed_payload_not_fatal:
  "emit_data (recv_parser parse_sample) (decoder_init (recv_init ''step'' ''conv'' 0)) [frame_a]
     = ([StreamResponseInvalid],
        \<lparr>chunk = frame_a, temp = [], parsed = recv_init ''step'' ''conv'' 0\<rparr>)
   \<and> receiveStream parse_sample ''step'' ''conv'' 0 [frame_a] Close
     = Inr (rs_data (recv_init ''step'' ''conv'' 0))
   \<and> createCompletion (\<lambda>n. receiveStream parse_sample ''step'' ''conv'' 0 [frame_a] Close) 0
     = Inr (rs_data (recv_init ''step'' ''conv'' 0))
   \<and> fst (emit_data (recv_parser parse_sample) (decoder_init (recv_init ''step'' ''conv'' 0))
            [frame_a, text_hi_frame, frame_b])
     = [StreamResponseInvalid, StreamResponseInvalid]
   \<and> receiveStream parse_sample ''step'' ''conv'' 0 [frame_a, text_hi_frame, frame_b] Close
     = Inr \<lparr>cmpl_id = ''conv'', cmpl_model = ''step'', cmpl_object = ''chat.completion'',
            cmpl_choices =
              [\<lparr>ch_index = 0, ch_message = \<lparr>msg_role = ''assistant'', msg_content = ''Hi''\<rparr>,
                ch_finish_reason = ''stop''\<rparr>],
            cmpl_usage = \<lparr>prompt_tokens = 1, completion_tokens = 1, total_tokens = 2\<rparr>,
            cmpl_created = 0\<rparr>
   \<and> trans_finish
        (parsed (snd (emit_data (trans_parser parse_sample ''conv'' ''step'' 0)
                        (decoder_init (trans_init ''conv'' ''step'' 0)) [frame_a]))) Close
     = \<lparr>ts_calls = [Write (Chunk (opening_chunk ''conv'' ''step'' 0)), End (Line done_line)],
        ts_closed = False, ts_ended = True, ts_error = None, ts_endCallbacks = 0\<rparr>"
proof -
  note defs = decoder_init_def on_data_def readUint32BE_def frame_a_def frame_b_def
    text_hi_frame_def text_hi_payload_def error_busy_payload_def error_unauth_payload_def
    recv_parser_def trans_parser_def parse_sample_def
  have one: "emit_data (recv_parser parse_sample) (decoder_init (recv_init ''step'' ''conv'' 0))
      [frame_a]
     = ([StreamResponseInvalid],
        \<lparr>chunk = frame_a, temp = [], parsed = recv_init ''step'' ''conv'' 0\<rparr>)"
    by (simp add: defs)
  have three: "emit_data (recv_parser parse_sample) (decoder_init (recv_init ''step'' ''conv'' 0))
      [frame_a, text_hi_frame, frame_b]
     = ([StreamResponseInvalid, StreamResponseInvalid],
        \<lparr>chunk = [], temp = frame_a @ frame_b,
         parsed = \<lparr>rs_data =
            \<lparr>cmpl_id = ''conv'', cmpl_model = ''step'', cmpl_object = ''chat.completion'',
             cmpl_choices =
               [\<lparr>ch_index = 0, ch_message = \<lparr>msg_role = ''assistant'', msg_content = ''Hi''\<rparr>,
                 ch_finish_reason = ''stop''\<rparr>],
             cmpl_usage = \<lparr>prompt_tokens = 1, completion_tokens = 1, total_tokens = 2\<rparr>,
             cmpl_created = 0\<rparr>,
           rs_refContent = []\<rparr>\<rparr>)"
    by (simp add: defs recv_result_def event_simps recv_init_def append_content_def)
  have streaming: "emit_data (trans_parser parse_sample ''conv'' ''step'' 0)
      (decoder_init (trans_init ''conv'' ''step'' 0)) [frame_a]
     = ([StreamResponseInvalid],
        \<lparr>chunk = frame_a, temp = [], parsed = trans_init ''conv'' ''step'' 0\<rparr>)"
    by (simp add: defs)
  have fin: "trans_finish (trans_init ''conv'' ''step'' 0) Close
     = \<lparr>ts_calls = [Write (Chunk (opening_chunk ''conv'' ''step'' 0)), End (Line done_line)],
        ts_closed = False, ts_ended = True, ts_error = None, ts_endCallbacks = 0\<rparr>"
    by (simp add: trans_finish_def trans_on_close_def trans_init_def ts_write_def ts_end_def)
  have r1: "receiveStream parse_sample ''step'' ''conv'' 0 [frame_a] Close
     = Inr (rs_data (recv_init ''step'' ''conv'' 0))"
    unfolding receiveStream_def one by simp
  have r2: "createCompletion (\<lambda>n. receiveStream parse_sample ''step'' ''conv'' 0 [frame_a] Close) 0
     = Inr (rs_data (recv_init ''step'' ''conv'' 0))"
    unfolding createCompletion_once r1 by (rule refl)
  have r3: "fst (emit_data (recv_parser parse_sample) (decoder_init (recv_init ''step'' ''conv'' 0))
            [frame_a, text_hi_frame, frame_b])
     = [StreamResponseInvalid, StreamResponseInvalid]"
    unfolding three by simp
  have r4: "receiveStream parse_sample ''step'' ''conv'' 0 [frame_a, text_hi_frame, frame_b] Close
     = Inr \<lparr>cmpl_id = ''conv'', cmpl_model = ''step'', cmpl_object = ''chat.completion'',
            cmpl_choices =
              [\<lparr>ch_index = 0, ch_message = \<lparr>msg_role = ''assistant'', msg_content = ''Hi''\<rparr>,
                ch_finish_reason = ''stop''\<rparr>],
            cmpl_usage = \<lparr>prompt_tokens = 1, completion_tokens = 1, total_tokens = 2\<rparr>,
            cmpl_created = 0\<rparr>"
    unfolding receiveStream_def three by simp
  have r5: "trans_finish
        (parsed (snd (emit_data (trans_parser parse_sample ''conv'' ''step'' 0)
                        (decoder_init (trans_init ''conv'' ''step'' 0)) [frame_a]))) Close
     = \<lparr>ts_calls = [Write (Chunk (opening_chunk ''conv'' ''step'' 0)), End (Line done_line)],
        ts_closed = False, ts_ended = True, ts_error = None, ts_endCallbacks = 0\<rparr>"
    unfolding streaming using fin by simp
  show ?thesis
    by (intro conjI; fact)
qed

section \<open>Search results\<close>

text \<open>
  C4, as the code has it (search results in both modes). In buffered mode a search event
  puts the lines \<^verbatim>\<open>{title}({url})\n\<close> of its own results into the side buffer, in place of
  what the buffer held, and leaves the answer as it was; a done event appends to the answer
  the results-from heading and the side buffer without its final newline when the buffer
  is not empty, and nothing otherwise. For the events search (A, http://a), text \<^verbatim>\<open>ans\<close>,
  done the answer is \<^verbatim>\<open>ans\<close>, the heading and \<^verbatim>\<open>A(http://a)\<close>, and the streaming transcoder
  writes the opening chunk, then the chunk with the searching line of A, then the delta
  \<^verbatim>\<open>ans\<close>, then the terminal chunk, and ends with the sentinel line.
\<close>

theorem search_results_side_buffer:
  "recv_result (SearchEvent rs) st = Inr (st\<lparr>rs_refContent := concat (map result_line rs)\<rparr>)
   \<and> content_of (st\<lparr>rs_refContent := concat (map result_line rs)\<rparr>) = content_of st
   \<and> recv_result DoneEvent st =
       append_content st (if rs_refContent st = [] then []
                          else results_from @ replace_final_newline (rs_refContent st))
   \<and> (\<exists>st'. recv_results (recv_init model convId now)
               [SearchEvent [result_a], TextEvent ''ans'', DoneEvent] = Inr st'
            \<and> content_of st' = ''ans'' @ results_from @ ''A(http://a)'')
   \<and> ts_calls (trans_results convId model created (trans_init convId model created)
                 [SearchEvent [result_a], TextEvent ''ans'', DoneEvent])
       = [Write (Chunk (opening_chunk convId model created)),
          Write (Chunk (content_chunk convId model created
                   (searching @ ''A(http://a) ...'' @ newline @ newline))),
          Write (Chunk (content_chunk convId model created ''ans'')),
          Write (Chunk (done_chunk convId model created)),
          End (Line done_line)]"
proof -
  have scenario: "\<exists>st'. recv_results (recv_init model convId now)
               [SearchEvent [result_a], TextEvent ''ans'', DoneEvent] = Inr st'
            \<and> content_of st' = ''ans'' @ results_from @ ''A(http://a)''"
    by (simp add: recv_result_SearchEvent recv_result_DoneEvent recv_result_def event_simps
        recv_init_def append_content_def content_of_def result_line_def result_a_def
        newline_def replace_final_newline_def)
  have streaming: "ts_calls (trans_results convId model created (trans_init convId model created)
                 [SearchEvent [result_a], TextEvent ''ans'', DoneEvent])
       = [Write (Chunk (opening_chunk convId model created)),
          Write (Chunk (content_chunk convId model created
                   (searching @ ''A(http://a) ...'' @ newline @ newline))),
          Write (Chunk (content_chunk convId model created ''ans'')),
          Write (Chunk (done_chunk convId model created)),
          End (Line done_line)]"
    by (simp add: trans_results_def trans_result_def trans_init_def ts_write_def ts_end_def
        event_simps searching_line_def result_a_def Let_def)
  show ?thesis
    using scenario streaming
    by (simp add: recv_result_SearchEvent recv_result_DoneEvent content_of_def)
qed

text \<open>
  Two search events before the text: the results of the first are not in the answer, which
  holds those of the second only.
\<close>

theorem search_results_overwritten:
  "\<exists>st. recv_results (recv_init ''step'' ''conv'' 0)
          [SearchEvent [result_a], SearchEvent [result_b], TextEvent ''ans'', DoneEvent] = Inr st
     \<and> content_of st = ''ans'' @ results_from @ ''B(http://b)''
     \<and> content_of st \<noteq> ''ans'' @ results_from @ ''A(http://a)'' @ newline @ ''B(http://b)''"
  by (simp add: recv_result_SearchEvent recv_result_DoneEvent recv_result_def event_simps
      recv_init_def append_content_def content_of_def result_line_def result_a_def result_b_def
      newline_def replace_final_newline_def)

section \<open>Failures of a streaming request\<close>

text \<open>
  C6, as the code has it (a streaming request that fails after its first chunk). While the
  outgoing stream is neither closed nor ended: a frame that parses to an error event with
  a code makes the parser return normally after writing one chunk with the
  service-unavailable notice and the finish reason \<^verbatim>\<open>stop\<close> and ending the stream with the
  sentinel line; the listener of the upstream's \<^verbatim>\<open>error\<close> event only ends the stream with
  the sentinel line, with no chunk before it.
\<close>

theorem stream_failure_ends_with_sentinel:
  assumes "\<not> ts_closed st" and "\<not> ts_ended st"
    and "code \<noteq> []" and "parse payload = Some (ErrorEvent code msg)"
  shows "trans_parser parse convId model created payload st
           = Inr (st\<lparr>ts_calls := ts_calls st @
                       [Write (Chunk (error_chunk convId model created
                                        \<lparr>err_code = code, err_message = msg\<rparr>)),
                        End (Line done_line)],
                     ts_ended := True,
                     ts_endCallbacks := ts_endCallbacks st + 1\<rparr>)
       \<and> ck_finish_reason (error_chunk convId model created \<lparr>err_code = code, err_message = msg\<rparr>)
           = Some ''stop''
       \<and> d_content (ck_delta (error_chunk convId model created
                                 \<lparr>err_code = code, err_message = msg\<rparr>))
           = Some (notice_prefix @ code @ ''] '' @ msg)
       \<and> trans_on_error st = st\<lparr>ts_calls := ts_calls st @ [End (Line done_line)], ts_ended := True\<rparr>"
  using assms
  by (simp add: trans_parser_def trans_result_def event_simps ts_write_def ts_end_def Let_def
      error_chunk_def sse_chunk_def unavailable_notice_def trans_on_error_def)

theorem stream_failure_ends_with_sentinel_witness:
  "trans_parser parse_sample ''conv'' ''step'' 0 error_busy_payload (trans_init ''conv'' ''step'' 0)
     = Inr \<lparr>ts_calls =
              [Write (Chunk (opening_chunk ''conv'' ''step'' 0)),
               Write (Chunk (error_chunk ''conv'' ''step'' 0
                               \<lparr>err_code = ''busy'', err_message = ''try later''\<rparr>)),
               End (Line done_line)],
            ts_closed = False, ts_ended = True, ts_error = None, ts_endCallbacks = 1\<rparr>
   \<and> trans_on_error (trans_init ''conv'' ''step'' 0)
       = \<lparr>ts_calls = [Write (Chunk (opening_chunk ''conv'' ''step'' 0)), End (Line done_line)],
          ts_closed = False, ts_ended = True, ts_error = None, ts_endCallbacks = 0\<rparr>"
proof -
  have init: "trans_init ''conv'' ''step'' 0
      = \<lparr>ts_calls = [Write (Chunk (opening_chunk ''conv'' ''step'' 0))],
         ts_closed = False, ts_ended = False, ts_error = None, ts_endCallbacks = 0\<rparr>"
    by (simp add: trans_init_def ts_write_def)
  have open_: "\<not> ts_closed (trans_init ''conv'' ''step'' 0)"
    and live: "\<not> ts_ended (trans_init ''conv'' ''step'' 0)"
    by (simp_all add: init)
  have code: "''busy'' \<noteq> []"
    by simp
  have p: "parse_sample error_busy_payload = Some (ErrorEvent ''busy'' ''try later'')"
    by (simp add: parse_sample_def error_busy_payload_def text_hi_payload_def)
  from stream_failure_ends_with_sentinel [where st = "trans_init ''conv'' ''step'' 0"
      and code = "''busy''" and msg = "''try later''" and parse = parse_sample
      and payload = error_busy_payload and convId = "''conv''" and model = "''step''"
      and created = 0, OF open_ live code p]
  show ?thesis
    by (simp add: init)
qed

text \<open>
  An \<^verbatim>\<open>error\<close> event of the upstream after the opening chunk and one text delta: the sentinel
  line is all that follows, and no chunk with a finish reason was written. The \<^verbatim>\<open>close\<close>
  event that comes with it ends the ended stream again.
\<close>

theorem transport_error_writes_no_error_chunk:
  "ts_calls (trans_on_error
      (trans_results ''conv'' ''step'' 0 (trans_init ''conv'' ''step'' 0) [TextEvent ''Hi'']))
     = [Write (Chunk (opening_chunk ''conv'' ''step'' 0)),
        Write (Chunk (content_chunk ''conv'' ''step'' 0 ''Hi'')),
        End (Line done_line)]
   \<and> finishing_chunks (trans_on_error
      (trans_results ''conv'' ''step'' 0 (trans_init ''conv'' ''step'' 0) [TextEvent ''Hi''])) = []
   \<and> trans_finish
        (trans_results ''conv'' ''step'' 0 (trans_init ''conv'' ''step'' 0) [TextEvent ''Hi''])
        (Error NetworkError)
     = \<lparr>ts_calls = [Write (Chunk (opening_chunk ''conv'' ''step'' 0)),
                    Write (Chunk (content_chunk ''conv'' ''step'' 0 ''Hi'')),
                    End (Line done_line)],
        ts_closed = False, ts_ended = True, ts_error = Some ERR_STREAM_WRITE_AFTER_END,
        ts_endCallbacks = 0\<rparr>"
  by (simp add: trans_results_def trans_result_def trans_init_def ts_write_def ts_end_def
      event_simps trans_on_error_def trans_on_close_def trans_finish_def finishing_chunks_def
      opening_chunk_def content_chunk_def sse_chunk_def)

section \<open>Message preparation\<close>

text \<open>
  C5, as the code has it (the merged message and its frame). For a non-empty message list
  the merged text is the turns before the last, then one line \<^verbatim>\<open>system:\<close> with the
  file-attention text when the last turn, after the base64 filter, still holds a file or
  image part and the message-attention text otherwise, then the last turn, then
  \<^verbatim>\<open>assistant:\<close>. A turn with a string content is \<^verbatim>\<open><role>:<content>\n\<close>, with \<^verbatim>\<open>user\<close>
  for a missing role; a turn with a part list is one line \<^verbatim>\<open>user:<text>\n\<close> per text part,
  whatever its role, and nothing for any other part. The result is one frame: a zero byte,
  the byte length of the JSON payload in four bytes, big-endian, and the payload. With no
  message at all the preparation throws.
\<close>

theorem message_preparation_frame:
  "merged_text isBASE64Data (ms @ [m]) =
     Inr (concat (map (merge_message []) ms)
          @ ''system:''
          @ (if hasFileOrImage (strip_base64 isBASE64Data m) then file_attention
             else message_attention)
          @ newline @ merge_message [] m @ ''assistant:'')
   \<and> merge_message [] \<lparr>m_role = r, m_content = Str s\<rparr> = role_or_user r @ '':'' @ s @ newline
   \<and> role_or_user None = ''user''
   \<and> merge_message [] \<lparr>m_role = r, m_content = Parts vs\<rparr> = concat (map (merge_item []) vs)
   \<and> merge_item [] (Obj p) =
       (if p_type p = Some ''text'' then ''user:'' @ text_or_undefined (p_text p) @ newline else [])
   \<and> merge_item [] (Prim x) = []
   \<and> (\<exists>text.
        merged_text isBASE64Data (ms @ [m]) = Inr text
        \<and> messagesPrepare isBASE64Data stringify convId (ms @ [m]) refs =
            Inr ([0x00]
                 @ setUint32 (length (stringify \<lparr>chatId = convId, messageInfo_text = text,
                      messageInfo_attachments = (if refs \<noteq> [] then Some refs else None)\<rparr>))
                 @ Buffer_from (stringify \<lparr>chatId = convId, messageInfo_text = text,
                      messageInfo_attachments = (if refs \<noteq> [] then Some refs else None)\<rparr>)))
   \<and> (length json < 2 ^ 32 \<longrightarrow> readUint32BE (wrapData json) 1 = Some (length json))
   \<and> wrapData json = [0x00] @ setUint32 (length json) @ Buffer_from json
   \<and> length (Buffer_from json) = length json
   \<and> messagesPrepare isBASE64Data stringify convId [] refs = Inl TypeError"
proof -
  have merged: "merged_text isBASE64Data (ms @ [m]) =
     Inr (concat (map (merge_message []) ms)
          @ ''system:''
          @ (if hasFileOrImage (strip_base64 isBASE64Data m) then file_attention
             else message_attention)
          @ newline @ merge_message [] m @ ''assistant:'')"
    by (simp add: merged_text_snoc merge_message_def system_message_def role_or_user_def)
  have frame: "messagesPrepare isBASE64Data stringify convId (ms @ [m]) refs =
            Inr ([0x00]
                 @ setUint32 (length (stringify \<lparr>chatId = convId, messageInfo_text = text,
                      messageInfo_attachments = (if refs \<noteq> [] then Some refs else None)\<rparr>))
                 @ Buffer_from (stringify \<lparr>chatId = convId, messageInfo_text = text,
                      messageInfo_attachments = (if refs \<noteq> [] then Some refs else None)\<rparr>))"
    if "merged_text isBASE64Data (ms @ [m]) = Inr text" for "text"
    using that by (simp add: messagesPrepare_def wrapData_def Let_def Buffer_from_def)
  have framed: "\<exists>text.
        merged_text isBASE64Data (ms @ [m]) = Inr text
        \<and> messagesPrepare isBASE64Data stringify convId (ms @ [m]) refs =
            Inr ([0x00]
                 @ setUint32 (length (stringify \<lparr>chatId = convId, messageInfo_text = text,
                      messageInfo_attachments = (if refs \<noteq> [] then Some refs else None)\<rparr>))
                 @ Buffer_from (stringify \<lparr>chatId = convId, messageInfo_text = text,
                      messageInfo_attachments = (if refs \<noteq> [] then Some refs else None)\<rparr>))"
    using merged frame [OF merged] by blast
  have plain: "merge_message [] \<lparr>m_role = r, m_content = Str s\<rparr> = role_or_user r @ '':'' @ s @ newline"
    by (simp add: merge_message_def)
  have user: "role_or_user None = ''user''"
    by (simp add: role_or_user_def)
  have parts: "merge_message [] \<lparr>m_role = r, m_content = Parts vs\<rparr> = concat (map (merge_item []) vs)"
    by (simp add: merge_message_def foldl_merge_item)
  have item: "merge_item [] (Obj p) =
       (if p_type p = Some ''text'' then ''user:'' @ text_or_undefined (p_text p) @ newline else [])"
    by (simp add: merge_item_def)
  have prim: "merge_item [] (Prim x) = []"
    by (simp add: merge_item_def)
  have len: "length json < 2 ^ 32 \<longrightarrow> readUint32BE (wrapData json) 1 = Some (length json)"
    by (rule impI) (rule read_wrap)
  have wrap: "wrapData json = [0x00] @ setUint32 (length json) @ Buffer_from json"
    by (simp add: wrapData_def Let_def Buffer_from_def)
  have bytes: "length (Buffer_from json) = length json"
    by (simp add: Buffer_from_def)
  have none: "messagesPrepare isBASE64Data stringify convId [] refs = Inl TypeError"
    by (simp add: messagesPrepare_def merged_text_def)
  show ?thesis
    by (intro conjI; fact)
qed

text \<open>The frame of a body whose merged text is \<^verbatim>\<open>user:q\<close>: 49 bytes of payload.\<close>

theorem message_preparation_frame_witness:
  "length (stringify_sample \<lparr>chatId = ''conv'', messageInfo_text = ''user:q'',
             messageInfo_attachments = None\<rparr>) < 2 ^ 32
   \<and> readUint32BE (wrapData (stringify_sample \<lparr>chatId = ''conv'', messageInfo_text = ''user:q'',
             messageInfo_attachments = None\<rparr>)) 1 = Some 49"
proof -
  define json where "json = stringify_sample \<lparr>chatId = ''conv'', messageInfo_text = ''user:q'',
             messageInfo_attachments = None\<rparr>"
  have l: "length json = 49"
    by (simp add: json_def stringify_sample_def json_string_def)
  then have small: "length json < 2 ^ 32"
    by simp
  from message_preparation_frame [where json = json]
  have "length json < 2 ^ 32 \<longrightarrow> readUint32BE (wrapData json) 1 = Some (length json)"
    by blast
  with small l show ?thesis
    unfolding json_def by simp
qed

text \<open>
  An earlier turn of the assistant given as a part list is serialized under \<^verbatim>\<open>user:\<close>,
  not under its role.
\<close>

theorem prior_turn_role_dropped:
  "merged_text isBASE64Data_sample [turn_assistant_parts, turn_user_q]
     = Inr (''user:hi'' @ newline @ ''system:'' @ message_attention @ newline
            @ ''user:q'' @ newline @ ''assistant:'')
   \<and> merged_text isBASE64Data_sample [turn_assistant_parts, turn_user_q]
     \<noteq> Inr (''assistant:hi'' @ newline @ ''system:'' @ message_attention @ newline
            @ ''user:q'' @ newline @ ''assistant:'')"
  by (simp add: merged_text_def turn_assistant_parts_def turn_user_q_def strip_base64_def
      keep_item_def is_file_or_image_def hasFileOrImage_def system_message_def merge_message_def
      merge_item_def text_or_undefined_def role_or_user_def newline_def Let_def)

section \<open>Uploads\<close>

text \<open>
  C10 (uploads come from the last message only). The URLs extracted from a message list
  are those of its last message: the file and image parts of its content, in order, and
  none for a string content or an empty list; one \<^verbatim>\<open>uploadFile\<close> call is made per extracted
  URL. In the merged text a file or image part of any turn contributes nothing.
\<close>

theorem uploads_from_last_message_only:
  "extractRefFileUrls (ms @ [m]) = extractRefFileUrls [m]
   \<and> extractRefFileUrls [m] = (case m_content m of Parts vs \<Rightarrow> concat (map item_urls vs) | Str s \<Rightarrow> [])
   \<and> extractRefFileUrls [] = []
   \<and> upload_stage upload (ms @ [m]) = map upload (extractRefFileUrls [m])
   \<and> merge_item c (Obj (p\<lparr>p_type := Some ''file''\<rparr>)) = c
   \<and> merge_item c (Obj (p\<lparr>p_type := Some ''image_url''\<rparr>)) = c"
  by (simp add: extractRefFileUrls_def upload_stage_def merge_item_def Let_def)

section \<open>Single-flight refresh\<close>

lemma acquire_calls_Cons:
  "acquire_calls st k now (c # cs) = acquire_calls (fst (acquireToken_call st k now c)) k now cs"
  by (simp add: acquire_calls_def)

lemma acquire_calls_queue:
  assumes "accessTokenMap st k = None" and "accessTokenRequestQueueMap st k = Some q"
  shows "acquire_calls st k now cs =
           st\<lparr>accessTokenRequestQueueMap := (accessTokenRequestQueueMap st)(k \<mapsto> q @ cs)\<rparr>"
  using assms
proof (induction cs arbitrary: st q)
  case Nil
  then show ?case by (simp add: acquire_calls_def fun_upd_idem)
next
  case (Cons c cs)
  let ?st = "st\<lparr>accessTokenRequestQueueMap := (accessTokenRequestQueueMap st)(k \<mapsto> q @ [c])\<rparr>"
  have step: "fst (acquireToken_call st k now c) = ?st"
    using Cons.prems by (simp add: acquireToken_call_def requestToken_call_def)
  have "acquire_calls ?st k now cs =
          st\<lparr>accessTokenRequestQueueMap := (accessTokenRequestQueueMap st)(k \<mapsto> q @ c # cs)\<rparr>"
    using Cons.IH [of ?st "q @ [c]"] Cons.prems by (simp add: fun_upd_def cong: if_cong)
  then show ?case
    by (simp only: acquire_calls_Cons step)
qed

lemma single_flight:
  assumes "accessTokenMap st k = None" and "accessTokenRequestQueueMap st k = None"
    and "\<not> inherited_key k"
  shows "acquire_calls st k now (c # cs) =
           st\<lparr>accessTokenRequestQueueMap := (accessTokenRequestQueueMap st)(k \<mapsto> cs),
               posts := posts st @ [k]\<rparr>"
proof -
  let ?st = "st\<lparr>accessTokenRequestQueueMap := (accessTokenRequestQueueMap st)(k \<mapsto> []),
               posts := posts st @ [k]\<rparr>"
  have step: "fst (acquireToken_call st k now c) = ?st"
    using assms by (simp add: acquireToken_call_def requestToken_call_def)
  have "acquire_calls ?st k now cs =
          st\<lparr>accessTokenRequestQueueMap := (accessTokenRequestQueueMap st)(k \<mapsto> cs),
              posts := posts st @ [k]\<rparr>"
    using acquire_calls_queue [of ?st k "[]" now cs] assms by (simp add: fun_upd_def cong: if_cong)
  then show ?thesis
    by (simp only: acquire_calls_Cons step)
qed

lemma single_flight_outcomes:
  assumes "accessTokenMap st k = None" and "accessTokenRequestQueueMap st k = None"
    and "\<not> inherited_key k"
  shows "posts (acquire_calls st k now (c # cs)) = posts st @ [k]"
    and "snd (requestToken_settle (acquire_calls st k now (c # cs)) k t (Inr (Body reg)))
           = (Fulfilled (LeaseV \<lparr>l_deviceId = reg_deviceID reg, l_accessToken = reg_accessToken reg,
                          l_refreshToken = reg_refreshToken reg,
                          l_refreshTime = t + ACCESS_TOKEN_EXPIRES\<rparr>),
              map (\<lambda>caller. (caller, Fulfilled (LeaseV \<lparr>l_deviceId = reg_deviceID reg, l_accessToken = reg_accessToken reg,
                          l_refreshToken = reg_refreshToken reg,
                          l_refreshTime = t + ACCESS_TOKEN_EXPIRES\<rparr>))) cs)"
    and "snd (requestToken_settle (acquire_calls st k now (c # cs)) k t (Inl e))
           = (Rejected e, map (\<lambda>caller. (caller, Fulfilled (ErrorV e))) cs)"
  by (simp_all add: single_flight [OF assms] requestToken_settle_def register_device_def
      checkResult_def check_data_def Let_def)

lemma inherited_key_throws:
  assumes "accessTokenRequestQueueMap st k = None" and "inherited_key k"
  shows "requestToken_call st k caller = (st, Threw TypeError)"
  using assms by (simp add: requestToken_call_def)

text \<open>
  C2 (single-flight refresh). One request is sent however many callers arrive
  (\<open>single_flight_outcomes\<close>), and on success all get the one lease. On failure the caller
  that sent the request gets the error thrown, but a queued caller's promise is fulfilled
  with the error object: for two callers and a failed exchange, the second caller's
  \<^verbatim>\<open>acquireToken\<close> stores the error object as the lease and returns the token
  \<^verbatim>\<open>undefined...undefined\<close>, and so does a later call, without any new request.
\<close>

theorem queued_callers_get_error_as_lease: 
  "posts two_callers = [''key'']
   \<and> accessTokenRequestQueueMap two_callers ''key'' = Some [2]
   \<and> snd (requestToken_settle two_callers ''key'' 101 (Inl NetworkError))
       = (Rejected NetworkError, [(2, Fulfilled (ErrorV NetworkError))])
   \<and> acquireToken_resume1 after_failure ''key'' 101 1 (Rejected NetworkError) = Inl NetworkError
   \<and> acquireToken_resume1 after_failure ''key'' 101 2 (Fulfilled (ErrorV NetworkError))
       = Inr (poisoned, Returned \<lparr>a_deviceId = None, a_token = ''undefined...undefined''\<rparr>)
   \<and> acquireToken_call poisoned ''key'' 5000 3
       = (poisoned, Returned \<lparr>a_deviceId = None, a_token = ''undefined...undefined''\<rparr>)
   \<and> posts poisoned = [''key'']"
  by (simp add: two_callers_def after_failure_def poisoned_def store_init_def acquire_calls_def
     acquireToken_call_def requestToken_call_def requestToken_settle_def register_device_def
     acquireToken_resume1_def acquireToken_check_def expired_def token_of_def js_string_def Let_def
     inherited_key_def)

section \<open>Eviction on an authentication failure\<close>

text \<open>
  C3, as the code has it (eviction on \<^verbatim>\<open>unauthenticated\<close>). \<^verbatim>\<open>checkResult\<close> on a body whose
  code is \<^verbatim>\<open>unauthenticated\<close> removes the entry of the refresh token from \<^verbatim>\<open>accessTokenMap\<close>
  and throws; the next \<^verbatim>\<open>acquireToken\<close> for that token, whatever the time, returns nothing
  from the cache but waits for \<^verbatim>\<open>requestToken\<close>: when a queue is open for the token it
  joins the exchange in flight, and when none is open and the token is not a property name
  that the queue object inherits, it sends a request of its own.
\<close>

theorem unauthenticated_evicts_lease:
  assumes "checkResult st (Coded ''unauthenticated'' message) refreshToken = (st', res)"
  shows "accessTokenMap st' refreshToken = None
       \<and> res = Inl (API_REQUEST_FAILED message)
       \<and> snd (acquireToken_call st' refreshToken now caller) = Awaiting1
       \<and> (accessTokenRequestQueueMap st refreshToken = None \<and> \<not> inherited_key refreshToken \<longrightarrow>
            snd (requestToken_call st' refreshToken caller) = Leader
            \<and> posts (fst (acquireToken_call st' refreshToken now caller)) = posts st @ [refreshToken])
       \<and> (accessTokenRequestQueueMap st refreshToken \<noteq> None \<longrightarrow>
            snd (requestToken_call st' refreshToken caller) = Queued)"
  using assms
  by (auto simp: checkResult_def check_data_def acquireToken_call_def requestToken_call_def
      split: option.splits)

text \<open>
  With a cached lease good until 1000, a call at 500 returns it and sends nothing; after the
  rejection the same call sends a request.
\<close>

theorem unauthenticated_evicts_lease_witness:
  "snd (acquireToken_call cached_store ''key'' 500 1)
      = Returned \<lparr>a_deviceId = Some ''d'', a_token = ''a...r''\<rparr>
   \<and> posts (fst (acquireToken_call cached_store ''key'' 500 1)) = []
   \<and> snd (checkResult cached_store (Coded ''unauthenticated'' ''token expired'' :: unit response_data) ''key'')
      = Inl (API_REQUEST_FAILED ''token expired'')
   \<and> snd (acquireToken_call
             (fst (checkResult cached_store (Coded ''unauthenticated'' ''token expired'' :: unit response_data) ''key''))
             ''key'' 500 1) = Awaiting1
   \<and> posts (fst (acquireToken_call
             (fst (checkResult cached_store (Coded ''unauthenticated'' ''token expired'' :: unit response_data) ''key''))
             ''key'' 500 1)) = [''key'']"
proof -
  obtain st' res where cr: "checkResult cached_store (Coded ''unauthenticated'' ''token expired'' :: unit response_data) ''key'' = (st', res)"
    by force
  have q: "accessTokenRequestQueueMap cached_store ''key'' = None" and p: "posts cached_store = []"
    by (simp_all add: cached_store_def store_init_def)
  have k: "\<not> inherited_key ''key''"
    by (simp add: inherited_key_def)
  have before: "acquireToken_call cached_store ''key'' 500 1
      = (cached_store, Returned \<lparr>a_deviceId = Some ''d'', a_token = ''a...r''\<rparr>)"
    by (simp add: cached_store_def store_init_def acquireToken_call_def acquireToken_check_def
        expired_def token_of_def)
  from unauthenticated_evicts_lease [OF cr, of 500 1] q p k cr before show ?thesis
    by simp
qed

text \<open>
  The same code in the streamed answer of \<^verbatim>\<open>SendMessageStream\<close>: with the cached lease, a
  stream of the one frame \<^verbatim>\<open>{"error":{"code":"unauthenticated","message":"token expired"}}\<close>
  resolves with the notice as the answer and leaves the store as it was, and the next
  \<^verbatim>\<open>acquireToken\<close> returns the cached lease and sends nothing.
\<close>

theorem streamed_unauthenticated_keeps_lease:
  "send_message_stage cached_store parse_sample ''step'' ''conv'' 500 [error_unauth_frame] Close
     = (cached_store,
        Inr \<lparr>cmpl_id = ''conv'', cmpl_model = ''step'', cmpl_object = ''chat.completion'',
             cmpl_choices =
               [\<lparr>ch_index = 0,
                 ch_message = \<lparr>msg_role = ''assistant'',
                               msg_content = notice_prefix @ ''unauthenticated] token expired''\<rparr>,
                 ch_finish_reason = ''stop''\<rparr>],
             cmpl_usage = \<lparr>prompt_tokens = 1, completion_tokens = 1, total_tokens = 2\<rparr>,
             cmpl_created = 500\<rparr>)
   \<and> accessTokenMap cached_store ''key''
     = Some (LeaseV \<lparr>l_deviceId = ''d'', l_accessToken = ''a'', l_refreshToken = ''r'',
                      l_refreshTime = 1000\<rparr>)
   \<and> acquireToken_call
        (fst (send_message_stage cached_store parse_sample ''step'' ''conv'' 500
                [error_unauth_frame] Close)) ''key'' 501 1
     = (cached_store, Returned \<lparr>a_deviceId = Some ''d'', a_token = ''a...r''\<rparr>)"
proof -
  have run: "receiveStream parse_sample ''step'' ''conv'' 500 [error_unauth_frame] Close
     = Inr \<lparr>cmpl_id = ''conv'', cmpl_model = ''step'', cmpl_object = ''chat.completion'',
             cmpl_choices =
               [\<lparr>ch_index = 0,
                 ch_message = \<lparr>msg_role = ''assistant'',
                               msg_content = notice_prefix @ ''unauthenticated] token expired''\<rparr>,
                 ch_finish_reason = ''stop''\<rparr>],
             cmpl_usage = \<lparr>prompt_tokens = 1, completion_tokens = 1, total_tokens = 2\<rparr>,
             cmpl_created = 500\<rparr>"
    by (simp add: receiveStream_def decoder_init_def on_data_def readUint32BE_def
        error_unauth_frame_def error_unauth_payload_def text_hi_payload_def error_busy_payload_def
        recv_parser_def parse_sample_def recv_result_def event_simps recv_init_def
        append_content_def unavailable_notice_def)
  have cached: "acquireToken_call cached_store ''key'' 501 1
      = (cached_store, Returned \<lparr>a_deviceId = Some ''d'', a_token = ''a...r''\<rparr>)"
    by (simp add: cached_store_def store_init_def acquireToken_call_def acquireToken_check_def
        expired_def token_of_def)
  have entry: "accessTokenMap cached_store ''key''
     = Some (LeaseV \<lparr>l_deviceId = ''d'', l_accessToken = ''a'', l_refreshToken = ''r'',
                      l_refreshTime = 1000\<rparr>)"
    by (simp add: cached_store_def store_init_def)
  have stage: "send_message_stage cached_store parse_sample ''step'' ''conv'' 500
      [error_unauth_frame] Close
     = (cached_store,
        Inr \<lparr>cmpl_id = ''conv'', cmpl_model = ''step'', cmpl_object = ''chat.completion'',
             cmpl_choices =
               [\<lparr>ch_index = 0,
                 ch_message = \<lparr>msg_role = ''assistant'',
                               msg_content = notice_prefix @ ''unauthenticated] token expired''\<rparr>,
                 ch_finish_reason = ''stop''\<rparr>],
             cmpl_usage = \<lparr>prompt_tokens = 1, completion_tokens = 1, total_tokens = 2\<rparr>,
             cmpl_created = 500\<rparr>)"
    unfolding send_message_stage_def run by (rule refl)
  have next_call: "acquireToken_call
        (fst (send_message_stage cached_store parse_sample ''step'' ''conv'' 500
                [error_unauth_frame] Close)) ''key'' 501 1
     = (cached_store, Returned \<lparr>a_deviceId = Some ''d'', a_token = ''a...r''\<rparr>)"
    unfolding stage fst_conv by (rule cached)
  show ?thesis
    by (intro conjI; fact)
qed

section \<open>Failures of an upload\<close>














end
